theory Spec2Isabelle
  imports Complex_Main "HOL-Library.Option_ord"
begin

section \<open>Dataframes\<close>

text \<open>
  The notebook \<^verbatim>\<open>DataEngineeringA2Notebook.py\<close> is a straight line of dataframe
  operations. A dataframe is modelled as its schema (the column names, in order) and its
  rows, a row being the list of its cells in the order of the schema. A cell is null or
  a value of one of the column types the notebook uses: a string, an integer, a date
  (days since the epoch, as the engine stores it) or a double. The type \<open>'a\<close> of double
  values is left open: the development only needs an addition and a linear order on it.
\<close>

datatype 'a cell = Null | Str string | Num int | Date int | Dbl 'a

type_synonym 'a row = "'a cell list"

record 'a table =
  cols :: "string list"
  rows :: "'a row list"

text \<open>
  What the notebook leaves to the engine is a parameter of the model: the parsers behind
  the casts of a string, the formatter behind \<^verbatim>\<open>date_format(_, "yyyy")\<close>, the text
  of a cell in a written file, and the sizes of the partitions that hold the rows of the
  sorted dataframe (rows past the listed sizes lie in one more partition).
\<close>

record 'a engine =
  parse_int :: "string \<Rightarrow> int option"
  parse_date :: "string \<Rightarrow> int option"
  parse_double :: "string \<Rightarrow> 'a option"
  format_yyyy :: "int \<Rightarrow> string"
  render :: "'a cell \<Rightarrow> string"
  partition_sizes :: "nat list"

text \<open>
  A statement of the notebook either gives its value or stops the run with an error: a
  path or a table that is not there, a column name that the dataframe does not have or
  has more than once (the engine's \<^verbatim>\<open>AnalysisException\<close>), or a column that a
  frame of pandas does not have. The statements that follow a statement run only when it
  gave a value.
\<close>

datatype error =
    PathNotFound string
  | TableNotFound string
  | UnresolvedColumn string
  | AmbiguousReference string
  | KeyError string

fun and_then :: "error + 'a \<Rightarrow> ('a \<Rightarrow> error + 'b) \<Rightarrow> error + 'b" where
  "and_then (Inl err) f = Inl err"
| "and_then (Inr x) f = f x"

subsection \<open>Column names\<close>

text \<open>
  The engine finds a column by its name without regard to case; the notebook relies on
  it where it reads \<^verbatim>\<open>col("year")\<close> from the column \<^verbatim>\<open>Year\<close>. A name that no
  column has, or that two columns have, is an error.
\<close>

definition lower_char :: "char \<Rightarrow> char" where
  "lower_char c =
     (case map_of (zip ''ABCDEFGHIJKLMNOPQRSTUVWXYZ'' ''abcdefghijklmnopqrstuvwxyz'') c of
        Some d \<Rightarrow> d
      | None \<Rightarrow> c)"

definition lower :: "string \<Rightarrow> string" where
  "lower s = map lower_char s"

definition same_name :: "string \<Rightarrow> string \<Rightarrow> bool" where
  "same_name a b = (lower a = lower b)"

fun index_of :: "string list \<Rightarrow> string \<Rightarrow> nat option" where
  "index_of [] n = None"
| "index_of (c # cs) n = (if same_name n c then Some 0 else map_option Suc (index_of cs n))"

fun resolve :: "string list \<Rightarrow> string \<Rightarrow> error + nat" where
  "resolve [] n = Inl (UnresolvedColumn n)"
| "resolve (c # cs) n =
     (if same_name n c
      then (if index_of cs n = None then Inr 0 else Inl (AmbiguousReference n))
      else and_then (resolve cs n) (\<lambda>k. Inr (Suc k)))"

fun resolve_all :: "string list \<Rightarrow> string list \<Rightarrow> error + nat list" where
  "resolve_all cs [] = Inr []"
| "resolve_all cs (n # ns) =
     and_then (resolve cs n) (\<lambda>k. and_then (resolve_all cs ns) (\<lambda>ks. Inr (k # ks)))"

definition nth_cell :: "'a row \<Rightarrow> nat \<Rightarrow> 'a cell" where
  "nth_cell r i = (if i < length r then r ! i else Null)"

text \<open>A row as wide as the schema: cut where it is longer, null where it is shorter.\<close>

definition fit :: "nat \<Rightarrow> 'a row \<Rightarrow> 'a row" where
  "fit n r = map (nth_cell r) [0..<n]"

subsection \<open>Column expressions\<close>

text \<open>
  A column expression is first resolved against the schema of the dataframe it is used
  on, which may fail, and then evaluated at the position of a row and the row.
\<close>

type_synonym 'a column = "string list \<Rightarrow> error + (nat \<Rightarrow> 'a row \<Rightarrow> 'a cell)"

definition col :: "string \<Rightarrow> 'a column" where
  "col n = (\<lambda>cs. and_then (resolve cs n) (\<lambda>k. Inr (\<lambda>i r. nth_cell r k)))"

definition lit :: "'a cell \<Rightarrow> 'a column" where
  "lit v = (\<lambda>cs. Inr (\<lambda>i r. v))"

text \<open>
  Modelled from the spec: what the engine's \<^verbatim>\<open>cast\<close> gives for a string that is not
  of the target type is not decided by the notebook; the spec says that cast failures
  produce null values, not a fatal error. So a string that the parser refuses becomes
  null; a null stays null. The casts of the notebook are applied to string columns.
\<close>

definition cast_int_cell :: "'a engine \<Rightarrow> 'a cell \<Rightarrow> 'a cell" where
  "cast_int_cell e v =
     (case v of
        Str s \<Rightarrow> (case parse_int e s of Some n \<Rightarrow> Num n | None \<Rightarrow> Null)
      | Num n \<Rightarrow> Num n
      | _ \<Rightarrow> Null)"

text \<open>
  Modelled from the spec: the cast to a date of a string that is not a date, null in the
  same way.
\<close>

definition cast_date_cell :: "'a engine \<Rightarrow> 'a cell \<Rightarrow> 'a cell" where
  "cast_date_cell e v =
     (case v of
        Str s \<Rightarrow> (case parse_date e s of Some d \<Rightarrow> Date d | None \<Rightarrow> Null)
      | Date d \<Rightarrow> Date d
      | _ \<Rightarrow> Null)"

text \<open>
  Modelled from the spec: the cast to a double of a string that is not a number, null in
  the same way.
\<close>

definition cast_double_cell :: "'a engine \<Rightarrow> 'a cell \<Rightarrow> 'a cell" where
  "cast_double_cell e v =
     (case v of
        Str s \<Rightarrow> (case parse_double e s of Some x \<Rightarrow> Dbl x | None \<Rightarrow> Null)
      | Dbl x \<Rightarrow> Dbl x
      | _ \<Rightarrow> Null)"

definition date_format_cell :: "'a engine \<Rightarrow> 'a cell \<Rightarrow> 'a cell" where
  "date_format_cell e v = (case v of Date d \<Rightarrow> Str (format_yyyy e d) | _ \<Rightarrow> Null)"

definition cast_int :: "'a engine \<Rightarrow> 'a column \<Rightarrow> 'a column" where
  "cast_int e x = (\<lambda>cs. and_then (x cs) (\<lambda>f. Inr (\<lambda>i r. cast_int_cell e (f i r))))"

definition cast_date :: "'a engine \<Rightarrow> 'a column \<Rightarrow> 'a column" where
  "cast_date e x = (\<lambda>cs. and_then (x cs) (\<lambda>f. Inr (\<lambda>i r. cast_date_cell e (f i r))))"

definition cast_double :: "'a engine \<Rightarrow> 'a column \<Rightarrow> 'a column" where
  "cast_double e x = (\<lambda>cs. and_then (x cs) (\<lambda>f. Inr (\<lambda>i r. cast_double_cell e (f i r))))"

definition date_format_yyyy :: "'a engine \<Rightarrow> 'a column \<Rightarrow> 'a column" where
  "date_format_yyyy e x = (\<lambda>cs. and_then (x cs) (\<lambda>f. Inr (\<lambda>i r. date_format_cell e (f i r))))"

text \<open>
  Addition of two columns: null when either side is null. The notebook adds doubles to
  doubles and an integer to the row identifier. The left operand is resolved first.
\<close>

fun add_cell :: "'a::plus cell \<Rightarrow> 'a cell \<Rightarrow> 'a cell" where
  "add_cell (Dbl a) (Dbl b) = Dbl (a + b)"
| "add_cell (Num a) (Num b) = Num (a + b)"
| "add_cell _ _ = Null"

definition plus_col :: "'a::plus column \<Rightarrow> 'a column \<Rightarrow> 'a column" where
  "plus_col x y =
     (\<lambda>cs. and_then (x cs) (\<lambda>f. and_then (y cs) (\<lambda>g. Inr (\<lambda>i r. add_cell (f i r) (g i r)))))"

text \<open>
  \<^verbatim>\<open>monotonically_increasing_id()\<close>: the partition index in the upper bits and the
  position of the row within its partition in the lower 33 bits.
\<close>

fun locate :: "nat list \<Rightarrow> nat \<Rightarrow> nat \<times> nat" where
  "locate [] i = (0, i)"
| "locate (s # ss) i =
     (if i < s then (0, i) else (case locate ss (i - s) of (p, j) \<Rightarrow> (Suc p, j)))"

definition row_id :: "nat list \<Rightarrow> nat \<Rightarrow> int" where
  "row_id ps i = (case locate ps i of (p, j) \<Rightarrow> int p * 2 ^ 33 + int j)"

definition monotonically_increasing_id :: "'a engine \<Rightarrow> 'a column" where
  "monotonically_increasing_id e = (\<lambda>cs. Inr (\<lambda>i r. Num (row_id (partition_sizes e) i)))"

text \<open>
  The conditions of the two filters of the notebook:
  \<^verbatim>\<open>col(n).contains(s)\<close> on a string column and \<^verbatim>\<open>col(n) >= s\<close> on a date
  column, where the literal is cast to a date. A null satisfies neither.
\<close>

type_synonym 'a condition = "string list \<Rightarrow> error + ('a row \<Rightarrow> bool)"

definition contains_string :: "string \<Rightarrow> string \<Rightarrow> bool" where
  "contains_string a s = list_ex (\<lambda>i. take (length s) (drop i a) = s) [0..<Suc (length a)]"

definition contains :: "string \<Rightarrow> string \<Rightarrow> 'a condition" where
  "contains n s =
     (\<lambda>cs. and_then (resolve cs n)
        (\<lambda>k. Inr (\<lambda>r. case nth_cell r k of Str a \<Rightarrow> contains_string a s | _ \<Rightarrow> False)))"

definition date_ge :: "'a engine \<Rightarrow> string \<Rightarrow> string \<Rightarrow> 'a condition" where
  "date_ge e n s =
     (\<lambda>cs. and_then (resolve cs n)
        (\<lambda>k. Inr (\<lambda>r. case nth_cell r k of
                         Date d \<Rightarrow> (case parse_date e s of Some d0 \<Rightarrow> d0 \<le> d | None \<Rightarrow> False)
                       | _ \<Rightarrow> False)))"

subsection \<open>Dataframe operations\<close>

text \<open>
  \<^verbatim>\<open>withColumn(n, x)\<close> replaces every column that has the name \<open>n\<close>, which takes the
  name as it is written in the call, or adds the column at the end.
  \<^verbatim>\<open>withColumnRenamed\<close> renames the columns of that name and does nothing when there
  is none.
\<close>

definition put_name :: "string list \<Rightarrow> string \<Rightarrow> string list" where
  "put_name cs n =
     (if list_ex (same_name n) cs then map (\<lambda>c. if same_name n c then n else c) cs
      else cs @ [n])"

definition put_cell :: "string list \<Rightarrow> string \<Rightarrow> 'a cell \<Rightarrow> 'a row \<Rightarrow> 'a row" where
  "put_cell cs n v r =
     (if list_ex (same_name n) cs
      then map (\<lambda>(c, x). if same_name n c then v else x) (zip cs (fit (length cs) r))
      else fit (length cs) r @ [v])"

definition withColumn :: "string \<Rightarrow> 'a column \<Rightarrow> 'a table \<Rightarrow> error + 'a table" where
  "withColumn n x t =
     and_then (x (cols t))
       (\<lambda>f. Inr \<lparr>cols = put_name (cols t) n,
                 rows = map (\<lambda>(i, r). put_cell (cols t) n (f i r) r) (enumerate 0 (rows t))\<rparr>)"

definition withColumnRenamed :: "string \<Rightarrow> string \<Rightarrow> 'a table \<Rightarrow> 'a table" where
  "withColumnRenamed old new t =
     \<lparr>cols = map (\<lambda>c. if same_name old c then new else c) (cols t), rows = rows t\<rparr>"

definition complete :: "nat \<Rightarrow> 'a row \<Rightarrow> bool" where
  "complete n r = list_all (\<lambda>v. v \<noteq> Null) (fit n r)"

definition dropna :: "'a table \<Rightarrow> 'a table" where
  "dropna t = \<lparr>cols = cols t, rows = filter (complete (length (cols t))) (rows t)\<rparr>"

text \<open>
  \<^verbatim>\<open>select\<close> resolves its columns in the order they are written; the result has the
  names written in the call.
\<close>

fun resolve_columns ::
  "'a column list \<Rightarrow> string list \<Rightarrow> error + (nat \<Rightarrow> 'a row \<Rightarrow> 'a cell) list" where
  "resolve_columns [] cs = Inr []"
| "resolve_columns (x # xs) cs =
     and_then (x cs) (\<lambda>f. and_then (resolve_columns xs cs) (\<lambda>fs. Inr (f # fs)))"

definition select :: "(string \<times> 'a column) list \<Rightarrow> 'a table \<Rightarrow> error + 'a table" where
  "select xs t =
     and_then (resolve_columns (map snd xs) (cols t))
       (\<lambda>fs. Inr \<lparr>cols = map fst xs,
                  rows = map (\<lambda>(i, r). map (\<lambda>f. f i r) fs) (enumerate 0 (rows t))\<rparr>)"

definition named :: "string \<Rightarrow> string \<times> 'a column" where
  "named n = (n, col n)"

definition aliased :: "'a column \<Rightarrow> string \<Rightarrow> string \<times> 'a column" where
  "aliased x n = (n, x)"

text \<open>
  Sorting. Descending order puts nulls last, ascending order puts them first; both are
  the order of \<open>option\<close> with \<open>None\<close> least. The sort is taken to be stable.
\<close>

definition dbl_key :: "'a cell \<Rightarrow> 'a option" where
  "dbl_key v = (case v of Dbl x \<Rightarrow> Some x | _ \<Rightarrow> None)"

definition int_key :: "'a cell \<Rightarrow> int option" where
  "int_key v = (case v of Num n \<Rightarrow> Some n | _ \<Rightarrow> None)"

definition orderBy_desc :: "string \<Rightarrow> 'a::linorder table \<Rightarrow> error + 'a table" where
  "orderBy_desc n t =
     and_then (resolve (cols t) n)
       (\<lambda>k. Inr \<lparr>cols = cols t,
                 rows = rev (sort_key (\<lambda>r. dbl_key (nth_cell r k)) (rev (rows t)))\<rparr>)"

definition orderBy_asc :: "string \<Rightarrow> 'a table \<Rightarrow> error + 'a table" where
  "orderBy_asc n t =
     and_then (resolve (cols t) n)
       (\<lambda>k. Inr \<lparr>cols = cols t, rows = sort_key (\<lambda>r. int_key (nth_cell r k)) (rows t)\<rparr>)"

definition limit_rows :: "nat \<Rightarrow> 'a table \<Rightarrow> 'a table" where
  "limit_rows k t = \<lparr>cols = cols t, rows = take k (rows t)\<rparr>"

definition filter_rows :: "'a condition \<Rightarrow> 'a table \<Rightarrow> error + 'a table" where
  "filter_rows p t =
     and_then (p (cols t)) (\<lambda>holds. Inr \<lparr>cols = cols t, rows = filter holds (rows t)\<rparr>)"

text \<open>
  \<^verbatim>\<open>groupBy(k).agg(sum(a).alias(b), ...)\<close>: one row for each value of the key, null
  being a value like any other; a sum skips nulls and is null when nothing is left.
\<close>

definition sum_agg :: "'a::plus cell list \<Rightarrow> 'a cell" where
  "sum_agg vs = (case filter (\<lambda>v. v \<noteq> Null) vs of [] \<Rightarrow> Null | v # ws \<Rightarrow> foldl add_cell v ws)"

definition groupBy_sum ::
  "string \<Rightarrow> (string \<times> string) list \<Rightarrow> 'a::plus table \<Rightarrow> error + 'a table" where
  "groupBy_sum k aggs t =
     and_then (resolve (cols t) k) (\<lambda>i.
     and_then (resolve_all (cols t) (map fst aggs)) (\<lambda>js.
       Inr \<lparr>cols = k # map snd aggs,
            rows = map (\<lambda>v. v # map (\<lambda>j. sum_agg (map (\<lambda>r. nth_cell r j)
                                        (filter (\<lambda>r. nth_cell r i = v) (rows t))))
                                js)
                     (remdups (map (\<lambda>r. nth_cell r i) (rows t)))\<rparr>))"

text \<open>
  \<^verbatim>\<open>l.join(r, k, "left")\<close>: the key is the first column of each side that has the
  name; it is an error when a side has none. The result has the key column of the left
  side first, then the other columns of the left side, then those of the right side. A
  left row is paired with every right row that has its key; a null key equals nothing.
  A left row without a partner is kept, with nulls in the columns of the right side.
\<close>

definition without :: "nat \<Rightarrow> 'b list \<Rightarrow> 'b list" where
  "without i xs = take i xs @ drop (Suc i) xs"

definition using_column :: "string list \<Rightarrow> string \<Rightarrow> error + nat" where
  "using_column cs k = (case index_of cs k of Some i \<Rightarrow> Inr i | None \<Rightarrow> Inl (UnresolvedColumn k))"

definition join_left :: "'a table \<Rightarrow> 'a table \<Rightarrow> string \<Rightarrow> error + 'a table" where
  "join_left l r k =
     and_then (using_column (cols l) k) (\<lambda>i.
     and_then (using_column (cols r) k) (\<lambda>j.
       Inr \<lparr>cols = cols l ! i # without i (cols l) @ without j (cols r),
            rows = concat (map (\<lambda>a.
               (let key = nth_cell a i;
                    left = key # without i (fit (length (cols l)) a)
                in case filter (\<lambda>b. key \<noteq> Null \<and> nth_cell b j = key) (rows r) of
                     [] \<Rightarrow> [left @ map (\<lambda>c. Null) (without j (cols r))]
                   | ms \<Rightarrow> map (\<lambda>b. left @ without j (fit (length (cols r)) b)) ms))
             (rows l))\<rparr>))"

section \<open>The notebook\<close>

subsection \<open>Ingestion\<close>

text \<open>
  A delimited file is its header and its records, each a list of fields. Reading it
  gives a dataframe of strings; an empty or missing field is null. The world the notebook
  runs in holds the files of the mounted container and the tables of the metastore.
\<close>

record csv_file =
  header :: "string list"
  body :: "string list list"

record 'a world =
  files :: "string \<Rightarrow> csv_file option"
  catalog :: "string \<Rightarrow> 'a table option"

definition raw_path :: string where
  "raw_path = ''/mnt/project-games-data/raw-data/vgsales.csv''"

definition transformed_path :: string where
  "transformed_path = ''/mnt/project-games-data/transformed-data/games''"

definition read_csv :: "csv_file \<Rightarrow> 'a table" where
  "read_csv f =
     \<lparr>cols = header f,
      rows = map (\<lambda>fields. map (\<lambda>i. if i < length fields \<and> fields ! i \<noteq> []
                                       then Str (fields ! i) else Null)
                            [0..<length (header f)])
               (body f)\<rparr>"

text \<open>\<^verbatim>\<open>CREATE TABLE IF NOT EXISTS gamestb USING parquet AS SELECT * FROM temp_table\<close>\<close>

definition create_table_if_not_exists ::
  "string \<Rightarrow> 'a table \<Rightarrow> (string \<Rightarrow> 'a table option) \<Rightarrow> (string \<Rightarrow> 'a table option)" where
  "create_table_if_not_exists n src cat =
     (case cat n of Some old \<Rightarrow> cat | None \<Rightarrow> cat(n \<mapsto> src))"

text \<open>
  Lines 28 to 38: the file is loaded as a temporary view, the table is created from the
  view when there is none, and the dataframe \<^verbatim>\<open>gamestb\<close> is read from the table.
\<close>

definition ingestion :: "'a world \<Rightarrow> error + ('a world \<times> 'a table)" where
  "ingestion w =
     (case files w raw_path of
        None \<Rightarrow> Inl (PathNotFound raw_path)
      | Some f \<Rightarrow>
          (let temp_table = read_csv f;
               w' = w\<lparr>catalog := create_table_if_not_exists ''gamestb'' temp_table (catalog w)\<rparr>
           in case catalog w' ''gamestb'' of
                None \<Rightarrow> Inl (TableNotFound ''gamestb'')
              | Some gamestb \<Rightarrow> Inr (w', gamestb)))"

subsection \<open>Schema Normalizer\<close>

definition vgsales_columns :: "string list" where
  "vgsales_columns =
     [''Rank'', ''Name'', ''Platform'', ''Year'', ''Genre'', ''Publisher'', ''NA_Sales'',
      ''EU_Sales'', ''JP_Sales'', ''Other_Sales'', ''Global_Sales'']"

text \<open>Lines 54 to 68.\<close>

definition schema_normalizer :: "'a engine \<Rightarrow> 'a table \<Rightarrow> error + 'a table" where
  "schema_normalizer e gamestb =
     and_then (withColumn ''Rank'' (cast_int e (col ''Rank'')) gamestb) (\<lambda>gamestb.
     and_then (withColumn ''Year'' (cast_date e (col ''Year'')) gamestb) (\<lambda>gamestb.
     and_then (withColumn ''NA_Sales'' (cast_double e (col ''NA_Sales'')) gamestb) (\<lambda>gamestb.
     and_then (withColumn ''EU_Sales'' (cast_double e (col ''EU_Sales'')) gamestb) (\<lambda>gamestb.
     and_then (withColumn ''JP_Sales'' (cast_double e (col ''JP_Sales'')) gamestb) (\<lambda>gamestb.
     and_then (withColumn ''Other_Sales'' (cast_double e (col ''Other_Sales'')) gamestb) (\<lambda>gamestb.
     withColumn ''Global_Sales'' (cast_double e (col ''Global_Sales'')) gamestb))))))"

text \<open>
  Lines 78 and 83: the two queries that are shown after the casts. What they show is not
  used again, but a name they cannot resolve stops the run.
\<close>

definition top_10_highest_sales :: "'a table \<Rightarrow> error + 'a table" where
  "top_10_highest_sales gamestb =
     and_then (orderBy_asc ''Rank'' gamestb) (\<lambda>sorted. Inr (limit_rows 10 sorted))"

definition top_10_action_games :: "'a table \<Rightarrow> error + 'a table" where
  "top_10_action_games gamestb =
     and_then (orderBy_asc ''Rank'' gamestb) (\<lambda>sorted.
     and_then (filter_rows (contains ''Genre'' ''Action'') sorted) (\<lambda>found.
     Inr (limit_rows 10 found)))"

subsection \<open>Data Corrector\<close>

text \<open>
  Line 93 is the statement \<^verbatim>\<open>gamestb.dropna()\<close>: the dataframe without the rows that
  hold a null is computed and not assigned, and \<^verbatim>\<open>gamestb\<close> stays as it was.
\<close>

definition drop_nulls_step :: "'a table \<Rightarrow> 'a table" where
  "drop_nulls_step gamestb = (let unassigned = dropna gamestb in gamestb)"

text \<open>Line 98.\<close>

definition format_year :: "'a engine \<Rightarrow> 'a table \<Rightarrow> error + 'a table" where
  "format_year e gamestb = withColumn ''year'' (date_format_yyyy e (col ''year'')) gamestb"

text \<open>Line 103.\<close>

definition recompute_global_sales :: "'a::plus table \<Rightarrow> error + 'a table" where
  "recompute_global_sales gamestb =
     withColumn ''Global_Sales''
       (plus_col (plus_col (plus_col (col ''NA_Sales'') (col ''EU_Sales'')) (col ''JP_Sales''))
          (col ''Other_Sales''))
       gamestb"

text \<open>Lines 108 and 113.\<close>

definition reassign_rank :: "'a::{plus,linorder} engine \<Rightarrow> 'a table \<Rightarrow> error + 'a table" where
  "reassign_rank e gamestb =
     and_then (orderBy_desc ''Global_Sales'' gamestb) (\<lambda>sorted_gamestb.
     withColumn ''Rank'' (plus_col (monotonically_increasing_id e) (lit (Num 1)))
       sorted_gamestb)"

definition data_corrector :: "'a::{plus,linorder} engine \<Rightarrow> 'a table \<Rightarrow> error + 'a table" where
  "data_corrector e gamestb =
     and_then (format_year e (drop_nulls_step gamestb)) (\<lambda>gamestb.
     and_then (recompute_global_sales gamestb) (\<lambda>gamestb.
     reassign_rank e gamestb))"

subsection \<open>Rollup Aggregator\<close>

definition sales_sums :: "(string \<times> string) list" where
  "sales_sums =
     [(''NA_Sales'', ''Total_NA_Sales''), (''EU_Sales'', ''Total_EU_Sales''),
      (''JP_Sales'', ''Total_JP_Sales''), (''Other_Sales'', ''Total_Other_Sales''),
      (''Global_Sales'', ''Total_Global_Sales'')]"

definition regional_total :: "'a::plus column" where
  "regional_total =
     plus_col (plus_col (plus_col (col ''Total_NA_Sales'') (col ''Total_EU_Sales''))
       (col ''Total_JP_Sales'')) (col ''Total_Other_Sales'')"

text \<open>Lines 118 to 138.\<close>

definition total_sales_df :: "'a::plus table \<Rightarrow> error + 'a table" where
  "total_sales_df gamestb =
     and_then (groupBy_sum ''Name'' sales_sums gamestb) (\<lambda>total_sales_df.
     withColumn ''Game_Total_Sales'' regional_total total_sales_df)"

definition gamestb_with_totals :: "'a::plus table \<Rightarrow> error + 'a table" where
  "gamestb_with_totals gamestb =
     and_then (total_sales_df gamestb) (\<lambda>total_sales_df.
     and_then (select [named ''Name'', named ''Game_Total_Sales''] total_sales_df) (\<lambda>totals.
     join_left gamestb totals ''Name''))"

text \<open>Lines 143 to 165.\<close>

definition publisher_sales_df :: "'a::plus table \<Rightarrow> error + 'a table" where
  "publisher_sales_df gamestb =
     and_then (groupBy_sum ''Publisher'' sales_sums gamestb) (\<lambda>publisher_sales_df.
     withColumn ''Total_Sales'' regional_total publisher_sales_df)"

definition df_with_totals_and_publisher_sales :: "'a::plus table \<Rightarrow> error + 'a table" where
  "df_with_totals_and_publisher_sales gamestb =
     and_then (gamestb_with_totals gamestb) (\<lambda>gamestb_with_totals.
     and_then (publisher_sales_df gamestb) (\<lambda>publisher_sales_df.
     and_then (select [named ''Publisher'', named ''Total_Sales''] publisher_sales_df) (\<lambda>totals.
     join_left gamestb_with_totals
       (withColumnRenamed ''Total_Sales'' ''Publisher_Total_Sales'' totals) ''Publisher'')))"

text \<open>Lines 170 to 193.\<close>

definition platform_sales_df :: "'a::plus table \<Rightarrow> error + 'a table" where
  "platform_sales_df gamestb =
     and_then (groupBy_sum ''Platform'' sales_sums gamestb) (\<lambda>platform_sales_df.
     withColumn ''Platform_Total_Sales'' regional_total platform_sales_df)"

definition df_with_totals_publisher_platform :: "'a::plus table \<Rightarrow> error + 'a table" where
  "df_with_totals_publisher_platform gamestb =
     and_then (df_with_totals_and_publisher_sales gamestb) (\<lambda>df_with_totals_and_publisher_sales.
     and_then (platform_sales_df gamestb) (\<lambda>platform_sales_df.
     and_then (select [named ''Platform'', named ''Platform_Total_Sales''] platform_sales_df)
       (\<lambda>totals.
     join_left df_with_totals_and_publisher_sales totals ''Platform'')))"

text \<open>Lines 198 to 221.\<close>

definition genre_sales_df :: "'a::plus table \<Rightarrow> error + 'a table" where
  "genre_sales_df gamestb =
     and_then (groupBy_sum ''Genre'' sales_sums gamestb) (\<lambda>genre_sales_df.
     withColumn ''Genre_Total_Sales'' regional_total genre_sales_df)"

definition df_with_totals_publisher_platform_genre :: "'a::plus table \<Rightarrow> error + 'a table" where
  "df_with_totals_publisher_platform_genre gamestb =
     and_then (df_with_totals_publisher_platform gamestb) (\<lambda>df_with_totals_publisher_platform.
     and_then (genre_sales_df gamestb) (\<lambda>genre_sales_df.
     and_then (select [named ''Genre'', named ''Genre_Total_Sales''] genre_sales_df) (\<lambda>totals.
     join_left df_with_totals_publisher_platform totals ''Genre'')))"

subsection \<open>Exporter\<close>

text \<open>Lines 240 to 256.\<close>

definition finalgames :: "'a engine \<Rightarrow> 'a table \<Rightarrow> error + 'a table" where
  "finalgames e df =
     select
       [named ''Rank'', named ''Name'', named ''Platform'',
        aliased (cast_date e (col ''year'')) ''Year'',
        named ''Genre'', named ''Publisher'', named ''NA_Sales'', named ''EU_Sales'',
        named ''JP_Sales'', named ''Other_Sales'', named ''Global_Sales'',
        named ''Game_Total_Sales'', named ''Publisher_Total_Sales'',
        named ''Platform_Total_Sales'', named ''Genre_Total_Sales'']
       df"

text \<open>
  Line 261: the dataframe is written with its header, replacing what the location held.
  A null is written as an empty field, any other cell as the engine renders it.
\<close>

definition field :: "'a engine \<Rightarrow> 'a cell \<Rightarrow> string" where
  "field e v = (if v = Null then [] else render e v)"

definition to_csv :: "'a engine \<Rightarrow> 'a table \<Rightarrow> csv_file" where
  "to_csv e t =
     \<lparr>header = cols t,
      body = map (\<lambda>r. map (field e) (fit (length (cols t)) r)) (rows t)\<rparr>"

definition write_overwrite :: "'a engine \<Rightarrow> string \<Rightarrow> 'a table \<Rightarrow> 'a world \<Rightarrow> 'a world" where
  "write_overwrite e path t w = w\<lparr>files := (files w)(path \<mapsto> to_csv e t)\<rparr>"

subsection \<open>The pipeline\<close>

text \<open>
  The statements of the notebook from the casts to the reordered dataframe, and the run
  from the raw file to the written file.
\<close>

definition transform :: "'a::{plus,linorder} engine \<Rightarrow> 'a table \<Rightarrow> error + 'a table" where
  "transform e gamestb =
     and_then (schema_normalizer e gamestb) (\<lambda>gamestb.
     and_then (top_10_highest_sales gamestb) (\<lambda>shown.
     and_then (top_10_action_games gamestb) (\<lambda>shown.
     and_then (data_corrector e gamestb) (\<lambda>gamestb.
     and_then (df_with_totals_publisher_platform_genre gamestb) (\<lambda>df.
     finalgames e df)))))"

definition run_pipeline :: "'a::{plus,linorder} engine \<Rightarrow> 'a world \<Rightarrow> error + 'a world" where
  "run_pipeline e w =
     (case ingestion w of
        Inl err \<Rightarrow> Inl err
      | Inr (w', gamestb) \<Rightarrow>
          and_then (transform e gamestb)
            (\<lambda>finalgames. Inr (write_overwrite e transformed_path finalgames w')))"

subsection \<open>Report queries and charts\<close>

text \<open>
  Lines 334 and 361: the ten best ranked games, of all time and since 2010, from the
  dataframe \<^verbatim>\<open>finalgames\<close>, here \<open>fg\<close>. The filter compares the date of the row with
  the date the literal is cast to.
\<close>

definition ranked_columns :: "(string \<times> 'a column) list" where
  "ranked_columns =
     [named ''Rank'', named ''Name'', named ''Platform'', named ''Global_Sales'', named ''Year'']"

definition top_ranked_games :: "'a table \<Rightarrow> error + 'a table" where
  "top_ranked_games fg =
     and_then (select ranked_columns fg) (\<lambda>selected.
     and_then (orderBy_asc ''Rank'' selected) (\<lambda>sorted.
     Inr (limit_rows 10 sorted)))"

definition top_ranked_games_2010 :: "'a engine \<Rightarrow> 'a table \<Rightarrow> error + 'a table" where
  "top_ranked_games_2010 e fg =
     and_then (select ranked_columns fg) (\<lambda>selected.
     and_then (filter_rows (date_ge e ''Year'' ''2010-01-01'') selected) (\<lambda>found.
     and_then (orderBy_asc ''Rank'' found) (\<lambda>sorted.
     Inr (limit_rows 10 sorted))))"

text \<open>
  The frames of the charts. A frame keeps the rows of the query in order, indexed from
  0; its columns are found by their exact names. \<^verbatim>\<open>df[n]\<close> is the column as a
  series, \<^verbatim>\<open>s.map(d)\<close> looks every value up in the dictionary (a value that is not
  a key gives a missing value, modelled as null), and \<^verbatim>\<open>df[n] = s\<close> stores the
  series by index, with a missing value where the series has no such index. A frame
  without rows takes the index of a series that is not empty: it gets one row for each
  value of the series, with missing values in the columns it had.
\<close>

fun position :: "string list \<Rightarrow> string \<Rightarrow> nat option" where
  "position [] n = None"
| "position (c # cs) n = (if n = c then Some 0 else map_option Suc (position cs n))"

definition getitem :: "string \<Rightarrow> 'a table \<Rightarrow> error + 'a cell list" where
  "getitem n df =
     (case position (cols df) n of
        Some k \<Rightarrow> Inr (map (\<lambda>r. nth_cell r k) (rows df))
      | None \<Rightarrow> Inl (KeyError n))"

definition series_map :: "(string \<times> string) list \<Rightarrow> 'a cell list \<Rightarrow> 'a cell list" where
  "series_map d vs =
     map (\<lambda>v. case v of
                Str s \<Rightarrow> (case map_of d s of Some c \<Rightarrow> Str c | None \<Rightarrow> Null)
              | _ \<Rightarrow> Null) vs"

definition indexed_rows :: "'a cell list \<Rightarrow> 'a table \<Rightarrow> 'a row list" where
  "indexed_rows vs df = (if rows df = [] then map (\<lambda>v. []) vs else rows df)"

definition setitem :: "string \<Rightarrow> 'a cell list \<Rightarrow> 'a table \<Rightarrow> 'a table" where
  "setitem n vs df =
     (case position (cols df) n of
        Some k \<Rightarrow>
          \<lparr>cols = cols df,
           rows = map (\<lambda>(i, r). (fit (length (cols df)) r)[k := nth_cell vs i])
                    (enumerate 0 (indexed_rows vs df))\<rparr>
      | None \<Rightarrow>
          \<lparr>cols = cols df @ [n],
           rows = map (\<lambda>(i, r). fit (length (cols df)) r @ [nth_cell vs i])
                    (enumerate 0 (indexed_rows vs df))\<rparr>)"

text \<open>Lines 343 to 350 and 370 to 376: the two bindings of \<^verbatim>\<open>platform_colors\<close>.\<close>

definition platform_colors_1 :: "(string \<times> string) list" where
  "platform_colors_1 =
     [(''Wii'', ''blue''), (''NES'', ''green''), (''Gameboy'', ''red''), (''DS'', ''purple''),
      (''Mobile'', ''orange''), (''Switch'', ''yellow'')]"

definition platform_colors_2 :: "(string \<times> string) list" where
  "platform_colors_2 =
     [(''PS3'', ''blue''), (''X360'', ''green''), (''PS4'', ''red''), (''DS'', ''purple''),
      (''3DS'', ''orange'')]"

text \<open>
  Lines 341 to 352: the frame \<^verbatim>\<open>top_ranked_games_pd\<close> with its \<^verbatim>\<open>Color\<close>
  column.
\<close>

definition top_ranked_games_pd :: "'a table \<Rightarrow> error + 'a table" where
  "top_ranked_games_pd fg =
     and_then (top_ranked_games fg) (\<lambda>df.
     and_then (getitem ''Platform'' df) (\<lambda>platform.
     Inr (setitem ''Color'' (series_map platform_colors_1 platform) df)))"

text \<open>
  Lines 361 to 378: the query since 2010 and the frame \<^verbatim>\<open>top_ranked_games_2010_pd\<close>.
  Its \<^verbatim>\<open>Color\<close> column is assigned from \<^verbatim>\<open>top_ranked_games_pd['Platform']\<close>, the
  frame of the cell before, mapped with the dictionary bound at line 370.
\<close>

definition top_ranked_games_2010_pd :: "'a engine \<Rightarrow> 'a table \<Rightarrow> error + 'a table" where
  "top_ranked_games_2010_pd e fg =
     and_then (top_ranked_games_pd fg) (\<lambda>top_ranked_games_pd.
     and_then (top_ranked_games_2010 e fg) (\<lambda>df.
     and_then (getitem ''Platform'' top_ranked_games_pd) (\<lambda>platform.
     Inr (setitem ''Color'' (series_map platform_colors_2 platform) df))))"

section \<open>The operations row by row\<close>

text \<open>
  The definitions of this section are not part of the notebook: they name what one
  operation does to one row, so that a chain of operations can be followed on a row, and
  the tables between the stages.
\<close>

text \<open>The cell of a row under a column name; null when no column has the name.\<close>

definition cell_at :: "string list \<Rightarrow> string \<Rightarrow> 'a row \<Rightarrow> 'a cell" where
  "cell_at cs n r = (case index_of cs n of Some i \<Rightarrow> nth_cell r i | None \<Rightarrow> Null)"

text \<open>The row of the Schema Normalizer.\<close>

definition normalize_row :: "'a engine \<Rightarrow> 'a row \<Rightarrow> 'a row" where
  "normalize_row e r =
     [cast_int_cell e (nth_cell r 0), nth_cell r 1, nth_cell r 2,
      cast_date_cell e (nth_cell r 3), nth_cell r 4, nth_cell r 5,
      cast_double_cell e (nth_cell r 6), cast_double_cell e (nth_cell r 7),
      cast_double_cell e (nth_cell r 8), cast_double_cell e (nth_cell r 9),
      cast_double_cell e (nth_cell r 10)]"

text \<open>The schema and the row after lines 98 and 103.\<close>

definition corrected_columns :: "string list" where
  "corrected_columns =
     [''Rank'', ''Name'', ''Platform'', ''year'', ''Genre'', ''Publisher'', ''NA_Sales'',
      ''EU_Sales'', ''JP_Sales'', ''Other_Sales'', ''Global_Sales'']"

definition corrected_row :: "'a::plus engine \<Rightarrow> 'a row \<Rightarrow> 'a row" where
  "corrected_row e r =
     [nth_cell r 0, nth_cell r 1, nth_cell r 2, date_format_cell e (nth_cell r 3),
      nth_cell r 4, nth_cell r 5, nth_cell r 6, nth_cell r 7, nth_cell r 8, nth_cell r 9,
      add_cell (add_cell (add_cell (nth_cell r 6) (nth_cell r 7)) (nth_cell r 8))
        (nth_cell r 9)]"

text \<open>The sort of line 108 and the row of line 113, given its position.\<close>

definition sort_desc :: "'a::linorder row list \<Rightarrow> 'a row list" where
  "sort_desc rs = rev (sort_key (\<lambda>r. dbl_key (nth_cell r 10)) (rev rs))"

definition ranked_row :: "nat list \<Rightarrow> nat \<times> 'a row \<Rightarrow> 'a row" where
  "ranked_row ps ir = Num (row_id ps (fst ir) + 1) # tl (fit 11 (snd ir))"

text \<open>
  The table between the Data Corrector and the rollups, from the raw table, and the
  table between the four joins and the final reordering, from the corrected table.
\<close>

definition corrected :: "'a::{plus,linorder} engine \<Rightarrow> 'a table \<Rightarrow> error + 'a table" where
  "corrected e t = and_then (schema_normalizer e t) (data_corrector e)"

text \<open>
  The total that a rollup attaches to the key \<open>v\<close> of the column at position \<open>i\<close> of the
  corrected table, whose regional sales are at the positions 6 to 9.
\<close>

definition group_total :: "'a::plus row list \<Rightarrow> nat \<Rightarrow> 'a cell \<Rightarrow> 'a cell" where
  "group_total rs i v =
     add_cell (add_cell (add_cell
       (sum_agg (map (\<lambda>r. nth_cell r 6) (filter (\<lambda>r. nth_cell r i = v) rs)))
       (sum_agg (map (\<lambda>r. nth_cell r 7) (filter (\<lambda>r. nth_cell r i = v) rs))))
       (sum_agg (map (\<lambda>r. nth_cell r 8) (filter (\<lambda>r. nth_cell r i = v) rs))))
       (sum_agg (map (\<lambda>r. nth_cell r 9) (filter (\<lambda>r. nth_cell r i = v) rs)))"

definition group_keys :: "'a row list \<Rightarrow> nat \<Rightarrow> 'a cell list" where
  "group_keys rs i = remdups (map (\<lambda>r. nth_cell r i) rs)"

definition lookup_total :: "'a::plus row list \<Rightarrow> nat \<Rightarrow> 'a cell \<Rightarrow> 'a cell" where
  "lookup_total rs i v =
     (if v \<noteq> Null \<and> v \<in> set (group_keys rs i) then group_total rs i v else Null)"

text \<open>
  The row that a left join gives for the left row \<open>a\<close> of width \<open>n\<close> with its key at
  position \<open>i\<close>, when the right side has the columns key and total and one row for each
  key; the schemas after the four joins, the row of each join and the row of the
  exported table.
\<close>

definition joined_row :: "nat \<Rightarrow> nat \<Rightarrow> ('a cell \<Rightarrow> 'a cell) \<Rightarrow> 'a row \<Rightarrow> 'a row" where
  "joined_row n i f a = (nth_cell a i # without i (fit n a)) @ [f (nth_cell a i)]"

definition columns_1 :: "string list" where
  "columns_1 =
     [''Name'', ''Rank'', ''Platform'', ''year'', ''Genre'', ''Publisher'', ''NA_Sales'',
      ''EU_Sales'', ''JP_Sales'', ''Other_Sales'', ''Global_Sales'', ''Game_Total_Sales'']"

definition columns_2 :: "string list" where
  "columns_2 =
     [''Publisher'', ''Name'', ''Rank'', ''Platform'', ''year'', ''Genre'', ''NA_Sales'',
      ''EU_Sales'', ''JP_Sales'', ''Other_Sales'', ''Global_Sales'', ''Game_Total_Sales'',
      ''Publisher_Total_Sales'']"

definition columns_3 :: "string list" where
  "columns_3 =
     [''Platform'', ''Publisher'', ''Name'', ''Rank'', ''year'', ''Genre'', ''NA_Sales'',
      ''EU_Sales'', ''JP_Sales'', ''Other_Sales'', ''Global_Sales'', ''Game_Total_Sales'',
      ''Publisher_Total_Sales'', ''Platform_Total_Sales'']"

definition columns_4 :: "string list" where
  "columns_4 =
     [''Genre'', ''Platform'', ''Publisher'', ''Name'', ''Rank'', ''year'', ''NA_Sales'',
      ''EU_Sales'', ''JP_Sales'', ''Other_Sales'', ''Global_Sales'', ''Game_Total_Sales'',
      ''Publisher_Total_Sales'', ''Platform_Total_Sales'', ''Genre_Total_Sales'']"

definition rollup_1 :: "'a::plus row list \<Rightarrow> 'a row \<Rightarrow> 'a row" where
  "rollup_1 rs = joined_row 11 1 (lookup_total rs 1)"

definition rollup_2 :: "'a::plus row list \<Rightarrow> 'a row \<Rightarrow> 'a row" where
  "rollup_2 rs = joined_row 12 5 (lookup_total rs 5)"

definition rollup_3 :: "'a::plus row list \<Rightarrow> 'a row \<Rightarrow> 'a row" where
  "rollup_3 rs = joined_row 13 3 (lookup_total rs 2)"

definition rollup_4 :: "'a::plus row list \<Rightarrow> 'a row \<Rightarrow> 'a row" where
  "rollup_4 rs = joined_row 14 5 (lookup_total rs 4)"

definition joined_row_of :: "'a::plus row list \<Rightarrow> 'a row \<Rightarrow> 'a row" where
  "joined_row_of rs r = rollup_4 rs (rollup_3 rs (rollup_2 rs (rollup_1 rs r)))"

definition final_columns :: "string list" where
  "final_columns =
     [''Rank'', ''Name'', ''Platform'', ''Year'', ''Genre'', ''Publisher'', ''NA_Sales'',
      ''EU_Sales'', ''JP_Sales'', ''Other_Sales'', ''Global_Sales'', ''Game_Total_Sales'',
      ''Publisher_Total_Sales'', ''Platform_Total_Sales'', ''Genre_Total_Sales'']"

definition final_row :: "'a::plus engine \<Rightarrow> 'a row list \<Rightarrow> 'a row \<Rightarrow> 'a row" where
  "final_row e rs r =
     [nth_cell r 0, nth_cell r 1, nth_cell r 2, cast_date_cell e (nth_cell r 3), nth_cell r 4,
      nth_cell r 5, nth_cell r 6, nth_cell r 7, nth_cell r 8, nth_cell r 9, nth_cell r 10,
      lookup_total rs 1 (nth_cell r 1), lookup_total rs 5 (nth_cell r 5),
      lookup_total rs 2 (nth_cell r 2), lookup_total rs 4 (nth_cell r 4)]"

text \<open>
  A table extends another by the column \<open>n\<close> when it has the columns of the other and
  \<open>n\<close>, one more column in all, as many rows, and in each row the cells of the other
  under their names.
\<close>

definition extends_by :: "string \<Rightarrow> 'a table \<Rightarrow> 'a table \<Rightarrow> bool" where
  "extends_by n t t' =
     (n \<notin> set (cols t) \<and> set (cols t') = insert n (set (cols t)) \<and>
      length (cols t') = Suc (length (cols t)) \<and>
      length (rows t') = length (rows t) \<and>
      (\<forall>i < length (rows t). \<forall>c \<in> set (cols t).
         cell_at (cols t') c (rows t' ! i) = cell_at (cols t) c (rows t ! i)))"

text \<open>
  The column Platform of a frame of a chart, and the column Color of a frame that was
  built without an error.
\<close>

definition platforms_of :: "'a table \<Rightarrow> 'a cell list" where
  "platforms_of df = map (cell_at (cols df) ''Platform'') (rows df)"

definition colors_of :: "error + 'a table \<Rightarrow> error + 'a cell list" where
  "colors_of x = and_then x (getitem ''Color'')"

text \<open>The file that a run leaves at the output location.\<close>

definition output_of :: "error + 'a world \<Rightarrow> csv_file option" where
  "output_of x = (case x of Inl err \<Rightarrow> None | Inr w \<Rightarrow> files w transformed_path)"

section \<open>Example data\<close>

text \<open>
  An engine over the rationals that parses and renders the few values of the examples,
  and files with the header of the sales file.
\<close>

definition example_render :: "rat cell \<Rightarrow> string" where
  "example_render v =
     (case v of
        Null \<Rightarrow> ''null''
      | Str s \<Rightarrow> s
      | Num n \<Rightarrow> (if n = 1 then ''1'' else if n = 2 then ''2''
                  else if n = 8589934593 then ''8589934593'' else ''?'')
      | Date d \<Rightarrow> (if d = 13149 then ''2006-01-01'' else if d = 15706 then ''2013-01-01''
                   else ''?'')
      | Dbl x \<Rightarrow> (if x = 0 then ''0.0'' else if x = 1 / 2 then ''0.5'' else if x = 1 then ''1.0''
                  else if x = 2 then ''2.0'' else if x = 7 / 2 then ''3.5''
                  else if x = 9 / 2 then ''4.5'' else if x = 8 then ''8.0'' else ''?''))"

definition example_engine :: "nat list \<Rightarrow> rat engine" where
  "example_engine ps =
     \<lparr>parse_int = map_of [(''1'', 1), (''2'', 2), (''3'', 3)],
      parse_date = map_of [(''2006'', 13149), (''2013'', 15706), (''2010-01-01'', 14610)],
      parse_double =
        map_of [(''0.0'', 0), (''0.5'', 1 / 2), (''1.0'', 1), (''2.0'', 2), (''99.0'', 99)],
      format_yyyy = (\<lambda>d. if d = 13149 then ''2006'' else if d = 15706 then ''2013'' else ''1970''),
      render = example_render,
      partition_sizes = ps\<rparr>"

definition alpha_file :: csv_file where
  "alpha_file =
     \<lparr>header = vgsales_columns,
      body = [[''1'', ''Alpha'', ''Wii'', ''2006'', ''Sports'', ''Acme'',
               ''1.0'', ''2.0'', ''0.0'', ''0.5'', ''99.0'']]\<rparr>"

definition beta_file :: csv_file where
  "beta_file =
     \<lparr>header = vgsales_columns,
      body = [[''1'', ''Beta'', ''PS4'', ''2013'', ''Action'', ''Acme'',
               ''2.0'', ''2.0'', ''0.0'', ''0.5'', ''1.0'']]\<rparr>"

definition nulls_file :: csv_file where
  "nulls_file =
     \<lparr>header = vgsales_columns,
      body = [[''1'', ''Alpha'', ''Wii'', ''2006'', ''Sports'', ''Acme'',
               ''1.0'', ''2.0'', ''0.0'', ''0.5'', ''99.0''],
              [''x'', ''Beta'', ''PS4'', ''N/A'', ''Action'', ''Acme'',
               ''n/a'', ''2.0'', ''0.0'', ''0.5'', ''1.0'']]\<rparr>"

definition pair_file :: csv_file where
  "pair_file =
     \<lparr>header = vgsales_columns,
      body = [[''1'', ''Alpha'', ''Wii'', ''2006'', ''Sports'', ''Acme'',
               ''1.0'', ''2.0'', ''0.0'', ''0.5'', ''99.0''],
              [''2'', ''Gamma'', ''PS4'', ''2013'', ''Action'', ''Acme'',
               ''2.0'', ''2.0'', ''0.0'', ''0.5'', ''1.0'']]\<rparr>"

definition acme_file :: csv_file where
  "acme_file =
     \<lparr>header = vgsales_columns,
      body = [[''1'', ''Alpha'', ''Wii'', ''2006'', ''Sports'', ''Acme'',
               ''1.0'', ''0.0'', ''0.0'', ''0.0'', ''1.0''],
              [''2'', ''Beta'', ''PS4'', ''2013'', ''Action'', ''Acme'',
               ''n/a'', ''2.0'', ''0.0'', ''0.0'', ''2.0'']]\<rparr>"

definition chart_file :: csv_file where
  "chart_file =
     \<lparr>header = vgsales_columns,
      body = [[''1'', ''Alpha'', ''Wii'', ''2006'', ''Sports'', ''Acme'',
               ''2.0'', ''2.0'', ''0.0'', ''0.5'', ''99.0''],
              [''2'', ''Gamma'', ''PS4'', ''2013'', ''Action'', ''Acme'',
               ''1.0'', ''2.0'', ''0.0'', ''0.5'', ''1.0'']]\<rparr>"

definition names_file :: csv_file where
  "names_file = \<lparr>header = [''Name''], body = [[''Alpha'']]\<rparr>"

definition fresh_world :: "csv_file \<Rightarrow> rat world" where
  "fresh_world f = \<lparr>files = [raw_path \<mapsto> f], catalog = Map.empty\<rparr>"

text \<open>
  The tables that the notebook computes from these files with the engine that keeps the
  sorted rows in one partition, as the lemmas on the examples show.
\<close>

definition alpha_final :: "rat table" where
  "alpha_final =
     \<lparr>cols = final_columns,
      rows = [[Num 1, Str ''Alpha'', Str ''Wii'', Date 13149, Str ''Sports'', Str ''Acme'',
               Dbl 1, Dbl 2, Dbl 0, Dbl (1 / 2), Dbl (7 / 2), Dbl (7 / 2), Dbl (7 / 2),
               Dbl (7 / 2), Dbl (7 / 2)]]\<rparr>"

definition nulls_normalized :: "rat table" where
  "nulls_normalized =
     \<lparr>cols = vgsales_columns,
      rows = [[Num 1, Str ''Alpha'', Str ''Wii'', Date 13149, Str ''Sports'', Str ''Acme'',
               Dbl 1, Dbl 2, Dbl 0, Dbl (1 / 2), Dbl 99],
              [Null, Str ''Beta'', Str ''PS4'', Null, Str ''Action'', Str ''Acme'',
               Null, Dbl 2, Dbl 0, Dbl (1 / 2), Dbl 1]]\<rparr>"

definition nulls_corrected :: "rat table" where
  "nulls_corrected =
     \<lparr>cols = corrected_columns,
      rows = [[Num 1, Str ''Alpha'', Str ''Wii'', Str ''2006'', Str ''Sports'', Str ''Acme'',
               Dbl 1, Dbl 2, Dbl 0, Dbl (1 / 2), Dbl (7 / 2)],
              [Num 2, Str ''Beta'', Str ''PS4'', Null, Str ''Action'', Str ''Acme'',
               Null, Dbl 2, Dbl 0, Dbl (1 / 2), Null]]\<rparr>"

definition nulls_final :: "rat table" where
  "nulls_final =
     \<lparr>cols = final_columns,
      rows = [[Num 1, Str ''Alpha'', Str ''Wii'', Date 13149, Str ''Sports'', Str ''Acme'',
               Dbl 1, Dbl 2, Dbl 0, Dbl (1 / 2), Dbl (7 / 2), Dbl (7 / 2), Dbl 6, Dbl (7 / 2),
               Dbl (7 / 2)],
              [Num 2, Str ''Beta'', Str ''PS4'', Null, Str ''Action'', Str ''Acme'',
               Null, Dbl 2, Dbl 0, Dbl (1 / 2), Null, Null, Dbl 6, Null, Null]]\<rparr>"

definition pair_normalized :: "rat table" where
  "pair_normalized =
     \<lparr>cols = vgsales_columns,
      rows = [[Num 1, Str ''Alpha'', Str ''Wii'', Date 13149, Str ''Sports'', Str ''Acme'',
               Dbl 1, Dbl 2, Dbl 0, Dbl (1 / 2), Dbl 99],
              [Num 2, Str ''Gamma'', Str ''PS4'', Date 15706, Str ''Action'', Str ''Acme'',
               Dbl 2, Dbl 2, Dbl 0, Dbl (1 / 2), Dbl 1]]\<rparr>"

definition pair_final :: "int \<Rightarrow> rat table" where
  "pair_final second_rank =
     \<lparr>cols = final_columns,
      rows = [[Num 1, Str ''Gamma'', Str ''PS4'', Date 15706, Str ''Action'', Str ''Acme'',
               Dbl 2, Dbl 2, Dbl 0, Dbl (1 / 2), Dbl (9 / 2), Dbl (9 / 2), Dbl 8, Dbl (9 / 2),
               Dbl (9 / 2)],
              [Num second_rank, Str ''Alpha'', Str ''Wii'', Date 13149, Str ''Sports'',
               Str ''Acme'', Dbl 1, Dbl 2, Dbl 0, Dbl (1 / 2), Dbl (7 / 2), Dbl (7 / 2), Dbl 8,
               Dbl (7 / 2), Dbl (7 / 2)]]\<rparr>"

definition acme_final :: "rat table" where
  "acme_final =
     \<lparr>cols = final_columns,
      rows = [[Num 1, Str ''Alpha'', Str ''Wii'', Date 13149, Str ''Sports'', Str ''Acme'',
               Dbl 1, Dbl 0, Dbl 0, Dbl 0, Dbl 1, Dbl 1, Dbl 3, Dbl 1, Dbl 1],
              [Num 2, Str ''Beta'', Str ''PS4'', Date 15706, Str ''Action'', Str ''Acme'',
               Null, Dbl 2, Dbl 0, Dbl 0, Null, Null, Dbl 3, Null, Null]]\<rparr>"

definition chart_final :: "rat table" where
  "chart_final =
     \<lparr>cols = final_columns,
      rows = [[Num 1, Str ''Alpha'', Str ''Wii'', Date 13149, Str ''Sports'', Str ''Acme'',
               Dbl 2, Dbl 2, Dbl 0, Dbl (1 / 2), Dbl (9 / 2), Dbl (9 / 2), Dbl 8, Dbl (9 / 2),
               Dbl (9 / 2)],
              [Num 2, Str ''Gamma'', Str ''PS4'', Date 15706, Str ''Action'', Str ''Acme'',
               Dbl 1, Dbl 2, Dbl 0, Dbl (1 / 2), Dbl (7 / 2), Dbl (7 / 2), Dbl 8, Dbl (7 / 2),
               Dbl (7 / 2)]]\<rparr>"

text \<open>The world after the first run on the file \<open>f\<close>, which wrote the table \<open>t\<close>.\<close>

definition world_after :: "nat list \<Rightarrow> csv_file \<Rightarrow> rat table \<Rightarrow> rat world" where
  "world_after ps f t =
     write_overwrite (example_engine ps) transformed_path t
       ((fresh_world f)\<lparr>catalog := [''gamestb'' \<mapsto> read_csv f]\<rparr>)"

section \<open>Lemmas on the operations\<close>

subsection \<open>Names\<close>

lemma lower_chars:
  "map lower_char ''ABCDEFGHIJKLMNOPQRSTUVWXYZ'' = ''abcdefghijklmnopqrstuvwxyz''"
  "map lower_char ''abcdefghijklmnopqrstuvwxyz_'' = ''abcdefghijklmnopqrstuvwxyz_''"
  by (simp_all add: lower_char_def)

lemma lower_names:
  "lower ''Rank'' = ''rank''"
  "lower ''Name'' = ''name''"
  "lower ''Platform'' = ''platform''"
  "lower ''Year'' = ''year''"
  "lower ''year'' = ''year''"
  "lower ''Genre'' = ''genre''"
  "lower ''Publisher'' = ''publisher''"
  "lower ''NA_Sales'' = ''na_sales''"
  "lower ''EU_Sales'' = ''eu_sales''"
  "lower ''JP_Sales'' = ''jp_sales''"
  "lower ''Other_Sales'' = ''other_sales''"
  "lower ''Global_Sales'' = ''global_sales''"
  "lower ''Total_NA_Sales'' = ''total_na_sales''"
  "lower ''Total_EU_Sales'' = ''total_eu_sales''"
  "lower ''Total_JP_Sales'' = ''total_jp_sales''"
  "lower ''Total_Other_Sales'' = ''total_other_sales''"
  "lower ''Total_Global_Sales'' = ''total_global_sales''"
  "lower ''Game_Total_Sales'' = ''game_total_sales''"
  "lower ''Total_Sales'' = ''total_sales''"
  "lower ''Publisher_Total_Sales'' = ''publisher_total_sales''"
  "lower ''Platform_Total_Sales'' = ''platform_total_sales''"
  "lower ''Genre_Total_Sales'' = ''genre_total_sales''"
  "lower ''Color'' = ''color''"
  using lower_chars by (simp_all add: lower_def)

lemma same_name_refl: "same_name n n"
  by (simp add: same_name_def)

lemmas schema = index_of.simps resolve.simps resolve_all.simps same_name_def lower_names
  put_name_def using_column_def without_def

lemmas exprs = col_def lit_def cast_int_def cast_date_def cast_double_def
  date_format_yyyy_def plus_col_def

subsection \<open>Cells of a row\<close>

lemma nth_cell_Cons_0: "nth_cell (v # r) 0 = v"
  by (simp add: nth_cell_def)

lemma nth_cell_Cons_Suc: "nth_cell (v # r) (Suc i) = nth_cell r i"
  by (simp add: nth_cell_def)

lemma nth_cell_Nil: "nth_cell [] i = Null"
  by (simp add: nth_cell_def)

lemma fit_0: "fit 0 r = []"
  by (simp add: fit_def)

lemma fit_Suc: "fit (Suc n) r = fit n r @ [nth_cell r n]"
  by (simp add: fit_def)

lemma length_fit: "length (fit n r) = n"
  by (simp add: fit_def)

lemmas cells = put_cell_def fit_0 fit_Suc nth_cell_Cons_0 nth_cell_Cons_Suc nth_cell_Nil

lemma map_enumerate_const: "map (case_prod (\<lambda>i. f)) (enumerate n xs) = map f xs"
  by (induction xs arbitrary: n) auto

lemma map_enumerate_snd: "map (\<lambda>p. f (snd p)) (enumerate n xs) = map f xs"
  by (induction xs arbitrary: n) auto

subsection \<open>The stages of the notebook\<close>

text \<open>
  A statement is simplified once the statement before it has given its table; the
  congruence rule keeps the simplifier out of the statements that follow.
\<close>

lemma and_then_weak_cong: "x = y \<Longrightarrow> and_then x f = and_then y f"
  by simp

lemma schema_normalizer_rows:
  assumes "cols t = vgsales_columns"
  shows "schema_normalizer e t =
     Inr \<lparr>cols = vgsales_columns, rows = map (normalize_row e) (rows t)\<rparr>"
  unfolding schema_normalizer_def
  by (simp add: assms withColumn_def exprs vgsales_columns_def schema map_enumerate_const
      cells normalize_row_def eval_nat_numeral comp_def cong: and_then_weak_cong)

lemma shown_queries:
  assumes "cols t = vgsales_columns"
  shows "\<exists>a. top_10_highest_sales t = Inr a" and "\<exists>b. top_10_action_games t = Inr b"
  by (simp_all add: top_10_highest_sales_def top_10_action_games_def orderBy_asc_def
      filter_rows_def contains_def assms vgsales_columns_def schema cong: and_then_weak_cong)

lemma recompute_rows:
  assumes "cols t = vgsales_columns"
  shows "and_then (format_year e (drop_nulls_step t)) recompute_global_sales =
     Inr \<lparr>cols = corrected_columns, rows = map (corrected_row e) (rows t)\<rparr>"
  unfolding recompute_global_sales_def format_year_def drop_nulls_step_def Let_def
  by (simp add: assms withColumn_def exprs vgsales_columns_def corrected_columns_def schema
      map_enumerate_const cells corrected_row_def eval_nat_numeral comp_def
      cong: and_then_weak_cong)

lemma reassign_rank_rows:
  assumes "cols g = corrected_columns"
  shows "reassign_rank e g =
     Inr \<lparr>cols = corrected_columns,
          rows = map (ranked_row (partition_sizes e)) (enumerate 0 (sort_desc (rows g)))\<rparr>"
  unfolding reassign_rank_def
  by (simp add: assms withColumn_def orderBy_desc_def exprs corrected_columns_def schema cells
      ranked_row_def sort_desc_def monotonically_increasing_id_def split_def eval_nat_numeral
      cong: and_then_weak_cong)

lemma data_corrector_rows:
  assumes "cols n = vgsales_columns"
  shows "data_corrector e n =
     Inr \<lparr>cols = corrected_columns,
          rows = map (ranked_row (partition_sizes e))
                   (enumerate 0 (sort_desc (map (corrected_row e) (rows n))))\<rparr>"
proof -
  have "data_corrector e n =
      and_then (and_then (format_year e (drop_nulls_step n)) recompute_global_sales)
        (reassign_rank e)"
    unfolding data_corrector_def by (cases "format_year e (drop_nulls_step n)") simp_all
  then show ?thesis
    by (simp add: recompute_rows[OF assms] reassign_rank_rows)
qed

lemma corrected_rows:
  assumes "cols t = vgsales_columns"
  shows "corrected e t =
     Inr \<lparr>cols = corrected_columns,
          rows = map (ranked_row (partition_sizes e))
                   (enumerate 0 (sort_desc (map (corrected_row e \<circ> normalize_row e) (rows t))))\<rparr>"
  unfolding corrected_def
  by (simp add: schema_normalizer_rows[OF assms] data_corrector_rows)

subsection \<open>A left join with one row for each key\<close>

lemma filter_eq_distinct:
  "distinct xs \<Longrightarrow> filter (\<lambda>v. P \<and> v = x) xs = (if P \<and> x \<in> set xs then [x] else [])"
  by (induction xs) auto

lemma join_left_lookup:
  assumes "distinct keys" and "index_of (cols l) k = Some i" and "same_name k k'"
  shows "join_left l \<lparr>cols = [k', tot], rows = map (\<lambda>v. [v, f v]) keys\<rparr> k =
     Inr \<lparr>cols = cols l ! i # without i (cols l) @ [tot],
          rows = map (joined_row (length (cols l)) i
                        (\<lambda>v. if v \<noteq> Null \<and> v \<in> set keys then f v else Null)) (rows l)\<rparr>"
proof -
  have m: "filter (\<lambda>b. x \<noteq> Null \<and> nth_cell b 0 = x) (map (\<lambda>v. [v, f v]) keys) =
      (if x \<noteq> Null \<and> x \<in> set keys then [[x, f x]] else [])" for x
    using filter_eq_distinct[OF assms(1), of "x \<noteq> Null" x]
    by (simp add: filter_map comp_def nth_cell_def)
  have w: "without 0 (fit (length [k', tot]) [v, u]) = [u]" for v u :: "'a cell"
    by (simp add: without_def fit_def nth_cell_def upt_rec)
  have row: "(case filter (\<lambda>b. nth_cell a i \<noteq> Null \<and> nth_cell b 0 = nth_cell a i)
                     (map (\<lambda>v. [v, f v]) keys) of
          [] \<Rightarrow> [(nth_cell a i # without i (fit (length (cols l)) a)) @
                 map (\<lambda>c. Null) [tot]]
        | ms \<Rightarrow> map (\<lambda>b. (nth_cell a i # without i (fit (length (cols l)) a)) @
                    without 0 (fit (length [k', tot]) b)) ms) =
      [joined_row (length (cols l)) i
         (\<lambda>v. if v \<noteq> Null \<and> v \<in> set keys then f v else Null) a]" for a
    by (subst m) (simp add: w joined_row_def without_def cells)
  have ul: "using_column (cols l) k = Inr i"
    by (simp add: using_column_def assms(2))
  have ur: "using_column [k', tot] k = Inr 0"
    by (simp add: using_column_def assms(3))
  have o: "without 0 [k', tot] = [tot]"
    by (simp add: without_def)
  show ?thesis
    unfolding join_left_def Let_def
    by (simp only: table.simps ul ur and_then.simps o row concat_map_singleton)
qed

subsection \<open>The rollups and the export\<close>

lemma and_then_assoc: "and_then (and_then x f) g = and_then x (\<lambda>v. and_then (f v) g)"
  by (cases x) simp_all

lemma lookup_total_fun:
  "(\<lambda>v. if v \<noteq> Null \<and> v \<in> set (group_keys rs i) then group_total rs i v else Null) =
   lookup_total rs i"
  by (simp add: fun_eq_iff lookup_total_def)

lemma distinct_group_keys: "distinct (group_keys rs k)"
  by (simp add: group_keys_def)

lemmas steps = withColumn_def select_def groupBy_sum_def exprs named_def aliased_def schema
  map_enumerate_const cells comp_def

lemma name_pairs:
  assumes "cols g = corrected_columns"
  shows "and_then (total_sales_df g) (select [named ''Name'', named ''Game_Total_Sales'']) =
     Inr \<lparr>cols = [''Name'', ''Game_Total_Sales''],
          rows = map (\<lambda>v. [v, group_total (rows g) 1 v]) (group_keys (rows g) 1)\<rparr>"
  unfolding total_sales_df_def group_keys_def group_total_def
  by (simp add: assms steps sales_sums_def regional_total_def corrected_columns_def
      eval_nat_numeral cong: and_then_weak_cong)

lemma publisher_pairs:
  assumes "cols g = corrected_columns"
  shows "and_then (and_then (publisher_sales_df g)
             (select [named ''Publisher'', named ''Total_Sales'']))
           (\<lambda>totals. Inr (withColumnRenamed ''Total_Sales'' ''Publisher_Total_Sales'' totals)) =
     Inr \<lparr>cols = [''Publisher'', ''Publisher_Total_Sales''],
          rows = map (\<lambda>v. [v, group_total (rows g) 5 v]) (group_keys (rows g) 5)\<rparr>"
  unfolding publisher_sales_df_def group_keys_def group_total_def
  by (simp add: assms steps sales_sums_def regional_total_def corrected_columns_def
      withColumnRenamed_def eval_nat_numeral cong: and_then_weak_cong)

lemma platform_pairs:
  assumes "cols g = corrected_columns"
  shows "and_then (platform_sales_df g)
           (select [named ''Platform'', named ''Platform_Total_Sales'']) =
     Inr \<lparr>cols = [''Platform'', ''Platform_Total_Sales''],
          rows = map (\<lambda>v. [v, group_total (rows g) 2 v]) (group_keys (rows g) 2)\<rparr>"
  unfolding platform_sales_df_def group_keys_def group_total_def
  by (simp add: assms steps sales_sums_def regional_total_def corrected_columns_def
      eval_nat_numeral cong: and_then_weak_cong)

lemma genre_pairs:
  assumes "cols g = corrected_columns"
  shows "and_then (genre_sales_df g) (select [named ''Genre'', named ''Genre_Total_Sales'']) =
     Inr \<lparr>cols = [''Genre'', ''Genre_Total_Sales''],
          rows = map (\<lambda>v. [v, group_total (rows g) 4 v]) (group_keys (rows g) 4)\<rparr>"
  unfolding genre_sales_df_def group_keys_def group_total_def
  by (simp add: assms steps sales_sums_def regional_total_def corrected_columns_def
      eval_nat_numeral cong: and_then_weak_cong)

lemma join_left_total:
  assumes "index_of (cols l) k = Some i" and "same_name k k'"
    and "cols l ! i # without i (cols l) @ [tot] = cs'" and "length (cols l) = n"
  shows "join_left l
       \<lparr>cols = [k', tot], rows = map (\<lambda>v. [v, group_total rs j v]) (group_keys rs j)\<rparr> k =
     Inr \<lparr>cols = cs', rows = map (joined_row n i (lookup_total rs j)) (rows l)\<rparr>"
  unfolding join_left_lookup[OF distinct_group_keys assms(1,2)] lookup_total_fun assms(3,4) ..

lemma gamestb_with_totals_rows:
  assumes "cols g = corrected_columns"
  shows "gamestb_with_totals g =
     Inr \<lparr>cols = columns_1, rows = map (rollup_1 (rows g)) (rows g)\<rparr>"
proof -
  have "gamestb_with_totals g =
      and_then (and_then (total_sales_df g) (select [named ''Name'', named ''Game_Total_Sales'']))
        (\<lambda>totals. join_left g totals ''Name'')"
    unfolding gamestb_with_totals_def by (simp only: and_then_assoc)
  also have "\<dots> = join_left g
      \<lparr>cols = [''Name'', ''Game_Total_Sales''],
       rows = map (\<lambda>v. [v, group_total (rows g) 1 v]) (group_keys (rows g) 1)\<rparr> ''Name''"
    by (simp only: name_pairs[OF assms] and_then.simps)
  also have "\<dots> = Inr \<lparr>cols = columns_1, rows = map (joined_row 11 1 (lookup_total (rows g) 1))
      (rows g)\<rparr>"
    by (rule join_left_total)
      (simp_all add: assms corrected_columns_def columns_1_def schema)
  finally show ?thesis
    by (simp only: rollup_1_def)
qed

lemma df_with_totals_and_publisher_sales_rows:
  assumes "cols g = corrected_columns"
  shows "df_with_totals_and_publisher_sales g =
     Inr \<lparr>cols = columns_2, rows = map (rollup_2 (rows g)) (map (rollup_1 (rows g)) (rows g))\<rparr>"
proof -
  have "df_with_totals_and_publisher_sales g =
      and_then (and_then (and_then (publisher_sales_df g)
             (select [named ''Publisher'', named ''Total_Sales'']))
           (\<lambda>totals. Inr (withColumnRenamed ''Total_Sales'' ''Publisher_Total_Sales'' totals)))
        (\<lambda>totals. join_left \<lparr>cols = columns_1, rows = map (rollup_1 (rows g)) (rows g)\<rparr>
           totals ''Publisher'')"
    unfolding df_with_totals_and_publisher_sales_def gamestb_with_totals_rows[OF assms]
    by (simp only: and_then_assoc and_then.simps)
  also have "\<dots> = join_left \<lparr>cols = columns_1, rows = map (rollup_1 (rows g)) (rows g)\<rparr>
      \<lparr>cols = [''Publisher'', ''Publisher_Total_Sales''],
       rows = map (\<lambda>v. [v, group_total (rows g) 5 v]) (group_keys (rows g) 5)\<rparr> ''Publisher''"
    by (simp only: publisher_pairs[OF assms] and_then.simps)
  also have "\<dots> = Inr \<lparr>cols = columns_2,
      rows = map (joined_row 12 5 (lookup_total (rows g) 5))
               (rows \<lparr>cols = columns_1, rows = map (rollup_1 (rows g)) (rows g)\<rparr>)\<rparr>"
    by (rule join_left_total) (simp_all add: columns_1_def columns_2_def schema)
  finally show ?thesis
    by (simp only: rollup_2_def table.simps)
qed

lemma df_with_totals_publisher_platform_rows:
  assumes "cols g = corrected_columns"
  shows "df_with_totals_publisher_platform g =
     Inr \<lparr>cols = columns_3,
          rows = map (rollup_3 (rows g)) (map (rollup_2 (rows g))
                   (map (rollup_1 (rows g)) (rows g)))\<rparr>"
proof -
  let ?l = "\<lparr>cols = columns_2,
      rows = map (rollup_2 (rows g)) (map (rollup_1 (rows g)) (rows g))\<rparr>"
  have "df_with_totals_publisher_platform g =
      and_then (and_then (platform_sales_df g)
             (select [named ''Platform'', named ''Platform_Total_Sales'']))
        (\<lambda>totals. join_left ?l totals ''Platform'')"
    unfolding df_with_totals_publisher_platform_def
      df_with_totals_and_publisher_sales_rows[OF assms]
    by (simp only: and_then_assoc and_then.simps)
  also have "\<dots> = join_left ?l
      \<lparr>cols = [''Platform'', ''Platform_Total_Sales''],
       rows = map (\<lambda>v. [v, group_total (rows g) 2 v]) (group_keys (rows g) 2)\<rparr> ''Platform''"
    by (simp only: platform_pairs[OF assms] and_then.simps)
  also have "\<dots> = Inr \<lparr>cols = columns_3,
      rows = map (joined_row 13 3 (lookup_total (rows g) 2)) (rows ?l)\<rparr>"
    by (rule join_left_total) (simp_all add: columns_2_def columns_3_def schema)
  finally show ?thesis
    by (simp only: rollup_3_def table.simps)
qed

lemma df_with_totals_publisher_platform_genre_rows:
  assumes "cols g = corrected_columns"
  shows "df_with_totals_publisher_platform_genre g =
     Inr \<lparr>cols = columns_4, rows = map (joined_row_of (rows g)) (rows g)\<rparr>"
proof -
  let ?l = "\<lparr>cols = columns_3,
      rows = map (rollup_3 (rows g)) (map (rollup_2 (rows g))
               (map (rollup_1 (rows g)) (rows g)))\<rparr>"
  have "df_with_totals_publisher_platform_genre g =
      and_then (and_then (genre_sales_df g)
             (select [named ''Genre'', named ''Genre_Total_Sales'']))
        (\<lambda>totals. join_left ?l totals ''Genre'')"
    unfolding df_with_totals_publisher_platform_genre_def
      df_with_totals_publisher_platform_rows[OF assms]
    by (simp only: and_then_assoc and_then.simps)
  also have "\<dots> = join_left ?l
      \<lparr>cols = [''Genre'', ''Genre_Total_Sales''],
       rows = map (\<lambda>v. [v, group_total (rows g) 4 v]) (group_keys (rows g) 4)\<rparr> ''Genre''"
    by (simp only: genre_pairs[OF assms] and_then.simps)
  also have "\<dots> = Inr \<lparr>cols = columns_4,
      rows = map (joined_row 14 5 (lookup_total (rows g) 4)) (rows ?l)\<rparr>"
    by (rule join_left_total) (simp_all add: columns_3_def columns_4_def schema)
  also have "\<dots> = Inr \<lparr>cols = columns_4, rows = map (joined_row_of (rows g)) (rows g)\<rparr>"
    by (simp add: rollup_4_def joined_row_of_def comp_def)
  finally show ?thesis .
qed

lemma rollup_1_row:
  "rollup_1 rs r =
     [nth_cell r 1, nth_cell r 0, nth_cell r 2, nth_cell r 3, nth_cell r 4, nth_cell r 5,
      nth_cell r 6, nth_cell r 7, nth_cell r 8, nth_cell r 9, nth_cell r 10,
      lookup_total rs 1 (nth_cell r 1)]"
  by (simp add: rollup_1_def joined_row_def without_def cells eval_nat_numeral)

lemma rollup_2_row:
  "rollup_2 rs [a0, a1, a2, a3, a4, a5, a6, a7, a8, a9, a10, a11] =
     [a5, a0, a1, a2, a3, a4, a6, a7, a8, a9, a10, a11, lookup_total rs 5 a5]"
  by (simp add: rollup_2_def joined_row_def without_def cells eval_nat_numeral)

lemma rollup_3_row:
  "rollup_3 rs [a0, a1, a2, a3, a4, a5, a6, a7, a8, a9, a10, a11, a12] =
     [a3, a0, a1, a2, a4, a5, a6, a7, a8, a9, a10, a11, a12, lookup_total rs 2 a3]"
  by (simp add: rollup_3_def joined_row_def without_def cells eval_nat_numeral)

lemma rollup_4_row:
  "rollup_4 rs [a0, a1, a2, a3, a4, a5, a6, a7, a8, a9, a10, a11, a12, a13] =
     [a5, a0, a1, a2, a3, a4, a6, a7, a8, a9, a10, a11, a12, a13, lookup_total rs 4 a5]"
  by (simp add: rollup_4_def joined_row_def without_def cells eval_nat_numeral)

lemma joined_row_of_cells:
  "joined_row_of rs r =
     [nth_cell r 4, nth_cell r 2, nth_cell r 5, nth_cell r 1, nth_cell r 0, nth_cell r 3,
      nth_cell r 6, nth_cell r 7, nth_cell r 8, nth_cell r 9, nth_cell r 10,
      lookup_total rs 1 (nth_cell r 1), lookup_total rs 5 (nth_cell r 5),
      lookup_total rs 2 (nth_cell r 2), lookup_total rs 4 (nth_cell r 4)]"
  by (simp add: joined_row_of_def rollup_1_row rollup_2_row rollup_3_row rollup_4_row)

lemma finalgames_joined:
  "finalgames e \<lparr>cols = columns_4, rows = map (joined_row_of rs) rs'\<rparr> =
     Inr \<lparr>cols = final_columns, rows = map (final_row e rs) rs'\<rparr>"
  unfolding finalgames_def
  by (simp add: steps columns_4_def final_columns_def joined_row_of_cells final_row_def
      eval_nat_numeral cong: and_then_weak_cong)

lemma rollups_and_finalgames:
  assumes "cols g = corrected_columns"
  shows "and_then (df_with_totals_publisher_platform_genre g) (finalgames e) =
     Inr \<lparr>cols = final_columns, rows = map (final_row e (rows g)) (rows g)\<rparr>"
  by (simp only: df_with_totals_publisher_platform_genre_rows[OF assms] and_then.simps
      finalgames_joined)

lemma transform_rows:
  assumes "cols t = vgsales_columns" and "corrected e t = Inr g"
  shows "transform e t = Inr \<lparr>cols = final_columns, rows = map (final_row e (rows g)) (rows g)\<rparr>"
proof -
  let ?n = "\<lparr>cols = vgsales_columns, rows = map (normalize_row e) (rows t)\<rparr>"
  obtain a b where q: "top_10_highest_sales ?n = Inr a" "top_10_action_games ?n = Inr b"
    using shown_queries[of ?n] by auto
  have d: "data_corrector e ?n = Inr g"
    using assms(2) by (simp add: corrected_def schema_normalizer_rows[OF assms(1)])
  have c: "cols g = corrected_columns"
    using assms(2) by (auto simp: corrected_rows[OF assms(1)])
  show ?thesis
    unfolding transform_def
    by (simp only: schema_normalizer_rows[OF assms(1)] and_then.simps q d
        rollups_and_finalgames[OF c])
qed

subsection \<open>The joins keep the cells they find\<close>

lemma extends_by_map:
  assumes "rows t' = map f (rows t)"
    and "n \<notin> set (cols t)" and "set (cols t') = insert n (set (cols t))"
    and "length (cols t') = Suc (length (cols t))"
    and "\<And>r. \<forall>c \<in> set (cols t). cell_at (cols t') c (f r) = cell_at (cols t) c r"
  shows "extends_by n t t'"
  unfolding extends_by_def using assms by simp

lemma rollup_1_keeps:
  "\<forall>c \<in> set corrected_columns. cell_at columns_1 c (rollup_1 rs r) = cell_at corrected_columns c r"
  by (simp add: rollup_1_def joined_row_def corrected_columns_def columns_1_def schema
      cell_at_def cells eval_nat_numeral)

lemma rollup_2_keeps:
  "\<forall>c \<in> set columns_1. cell_at columns_2 c (rollup_2 rs r) = cell_at columns_1 c r"
  by (simp add: rollup_2_def joined_row_def columns_1_def columns_2_def schema
      cell_at_def cells eval_nat_numeral)

lemma rollup_3_keeps:
  "\<forall>c \<in> set columns_2. cell_at columns_3 c (rollup_3 rs r) = cell_at columns_2 c r"
  by (simp add: rollup_3_def joined_row_def columns_2_def columns_3_def schema
      cell_at_def cells eval_nat_numeral)

lemma rollup_4_keeps:
  "\<forall>c \<in> set columns_3. cell_at columns_4 c (rollup_4 rs r) = cell_at columns_3 c r"
  by (simp add: rollup_4_def joined_row_def columns_3_def columns_4_def schema
      cell_at_def cells eval_nat_numeral)

lemma joins_extend:
  assumes "cols g = corrected_columns"
  shows "\<exists>t1 t2 t3 t4.
     gamestb_with_totals g = Inr t1 \<and>
     df_with_totals_and_publisher_sales g = Inr t2 \<and>
     df_with_totals_publisher_platform g = Inr t3 \<and>
     df_with_totals_publisher_platform_genre g = Inr t4 \<and>
     extends_by ''Game_Total_Sales'' g t1 \<and>
     extends_by ''Publisher_Total_Sales'' t1 t2 \<and>
     extends_by ''Platform_Total_Sales'' t2 t3 \<and>
     extends_by ''Genre_Total_Sales'' t3 t4"
proof -
  let ?t1 = "\<lparr>cols = columns_1, rows = map (rollup_1 (rows g)) (rows g)\<rparr>"
  let ?t2 = "\<lparr>cols = columns_2, rows = map (rollup_2 (rows g)) (rows ?t1)\<rparr>"
  let ?t3 = "\<lparr>cols = columns_3, rows = map (rollup_3 (rows g)) (rows ?t2)\<rparr>"
  let ?t4 = "\<lparr>cols = columns_4, rows = map (rollup_4 (rows g)) (rows ?t3)\<rparr>"
  have 1: "gamestb_with_totals g = Inr ?t1"
    by (rule gamestb_with_totals_rows[OF assms])
  have 2: "df_with_totals_and_publisher_sales g = Inr ?t2"
    by (simp add: df_with_totals_and_publisher_sales_rows[OF assms])
  have 3: "df_with_totals_publisher_platform g = Inr ?t3"
    by (simp add: df_with_totals_publisher_platform_rows[OF assms])
  have 4: "df_with_totals_publisher_platform_genre g = Inr ?t4"
    by (simp add: df_with_totals_publisher_platform_genre_rows[OF assms] joined_row_of_def
        comp_def)
  have e1: "extends_by ''Game_Total_Sales'' g ?t1"
    by (rule extends_by_map[where f = "rollup_1 (rows g)"])
      (simp_all add: assms rollup_1_keeps, simp_all add: corrected_columns_def columns_1_def, auto)
  have e2: "extends_by ''Publisher_Total_Sales'' ?t1 ?t2"
    by (rule extends_by_map[where f = "rollup_2 (rows g)"])
      (simp_all add: rollup_2_keeps, simp_all add: columns_1_def columns_2_def, auto)
  have e3: "extends_by ''Platform_Total_Sales'' ?t2 ?t3"
    by (rule extends_by_map[where f = "rollup_3 (rows g)"])
      (simp_all add: rollup_3_keeps, simp_all add: columns_2_def columns_3_def, auto)
  have e4: "extends_by ''Genre_Total_Sales'' ?t3 ?t4"
    by (rule extends_by_map[where f = "rollup_4 (rows g)"])
      (simp_all add: rollup_4_keeps, simp_all add: columns_3_def columns_4_def, auto)
  show ?thesis
    using 1 2 3 4 e1 e2 e3 e4 by blast
qed

subsection \<open>Ingestion and the run\<close>

lemma paths_differ: "raw_path \<noteq> transformed_path"
  by (simp add: raw_path_def transformed_path_def)

lemma ingestion_fresh:
  "files w raw_path = Some f \<Longrightarrow> catalog w ''gamestb'' = None \<Longrightarrow>
   ingestion w = Inr (w\<lparr>catalog := (catalog w)(''gamestb'' \<mapsto> read_csv f)\<rparr>, read_csv f)"
  by (simp add: ingestion_def create_table_if_not_exists_def Let_def)

lemma ingestion_existing:
  "files w raw_path = Some f \<Longrightarrow> catalog w ''gamestb'' = Some old \<Longrightarrow>
   ingestion w = Inr (w, old)"
  by (simp add: ingestion_def create_table_if_not_exists_def Let_def)

lemma ingestion_result:
  assumes "ingestion w = Inr (w', g)"
  shows "files w' = files w \<and> catalog w' ''gamestb'' = Some g \<and> files w raw_path \<noteq> None"
  using assms
  by (auto simp: ingestion_def create_table_if_not_exists_def Let_def split: option.splits)

lemma run_after_ingestion:
  assumes "ingestion w = Inr (w', gamestb)"
  shows "run_pipeline e w =
     and_then (transform e gamestb)
       (\<lambda>finalgames. Inr (write_overwrite e transformed_path finalgames w'))"
  by (simp add: run_pipeline_def assms)

lemma header_to_csv: "header (to_csv e t) = cols t"
  by (simp add: to_csv_def)

lemma length_body_to_csv: "length (body (to_csv e t)) = length (rows t)"
  by (simp add: to_csv_def)

subsection \<open>Rows of the corrected table\<close>

lemma set_sort_desc: "set (sort_desc rs) = set rs"
  by (simp add: sort_desc_def)

lemma length_sort_desc: "length (sort_desc rs) = length rs"
  by (simp add: sort_desc_def)

lemma ranked_row_cells:
  "ranked_row ps (i, r) =
     [Num (row_id ps i + 1), nth_cell r 1, nth_cell r 2, nth_cell r 3, nth_cell r 4,
      nth_cell r 5, nth_cell r 6, nth_cell r 7, nth_cell r 8, nth_cell r 9, nth_cell r 10]"
  by (simp add: ranked_row_def cells eval_nat_numeral)

lemma corrected_row_origin:
  assumes "cols t = vgsales_columns" and "corrected e t = Inr g" and "r \<in> set (rows g)"
  shows "\<exists>i r0. r0 \<in> set (rows t) \<and>
     r = ranked_row (partition_sizes e) (i, corrected_row e (normalize_row e r0))"
proof -
  from assms(2,3) obtain i r' where r': "r = ranked_row (partition_sizes e) (i, r')"
    and "(i, r') \<in> set (enumerate 0
           (sort_desc (map (corrected_row e \<circ> normalize_row e) (rows t))))"
    by (auto simp: corrected_rows[OF assms(1)])
  then have "r' \<in> set (sort_desc (map (corrected_row e \<circ> normalize_row e) (rows t)))"
    by (auto simp: in_set_enumerate_eq)
  then obtain r0 where "r0 \<in> set (rows t)" "r' = corrected_row e (normalize_row e r0)"
    by (auto simp: set_sort_desc)
  with r' show ?thesis
    by blast
qed

lemma corrected_cells:
  "cell_at corrected_columns ''Rank'' r = nth_cell r 0"
  "cell_at corrected_columns ''Name'' r = nth_cell r 1"
  "cell_at corrected_columns ''Platform'' r = nth_cell r 2"
  "cell_at corrected_columns ''year'' r = nth_cell r 3"
  "cell_at corrected_columns ''Genre'' r = nth_cell r 4"
  "cell_at corrected_columns ''Publisher'' r = nth_cell r 5"
  "cell_at corrected_columns ''NA_Sales'' r = nth_cell r 6"
  "cell_at corrected_columns ''EU_Sales'' r = nth_cell r 7"
  "cell_at corrected_columns ''JP_Sales'' r = nth_cell r 8"
  "cell_at corrected_columns ''Other_Sales'' r = nth_cell r 9"
  "cell_at corrected_columns ''Global_Sales'' r = nth_cell r 10"
  by (simp_all add: corrected_columns_def cell_at_def schema eval_nat_numeral)

lemma final_cells:
  "cell_at final_columns ''Rank'' r = nth_cell r 0"
  "cell_at final_columns ''Name'' r = nth_cell r 1"
  "cell_at final_columns ''Platform'' r = nth_cell r 2"
  "cell_at final_columns ''Year'' r = nth_cell r 3"
  "cell_at final_columns ''Genre'' r = nth_cell r 4"
  "cell_at final_columns ''Publisher'' r = nth_cell r 5"
  "cell_at final_columns ''NA_Sales'' r = nth_cell r 6"
  "cell_at final_columns ''EU_Sales'' r = nth_cell r 7"
  "cell_at final_columns ''JP_Sales'' r = nth_cell r 8"
  "cell_at final_columns ''Other_Sales'' r = nth_cell r 9"
  "cell_at final_columns ''Global_Sales'' r = nth_cell r 10"
  "cell_at final_columns ''Game_Total_Sales'' r = nth_cell r 11"
  "cell_at final_columns ''Publisher_Total_Sales'' r = nth_cell r 12"
  "cell_at final_columns ''Platform_Total_Sales'' r = nth_cell r 13"
  "cell_at final_columns ''Genre_Total_Sales'' r = nth_cell r 14"
  by (simp_all add: final_columns_def cell_at_def schema eval_nat_numeral)

subsection \<open>The frames of the charts\<close>

lemma and_then_eq_Inr: "and_then x f = Inr y \<longleftrightarrow> (\<exists>v. x = Inr v \<and> f v = Inr y)"
  by (cases x) simp_all

lemma select_cols: "select xs t = Inr s \<Longrightarrow> cols s = map fst xs"
  by (auto simp: select_def and_then_eq_Inr)

lemma orderBy_asc_cols: "orderBy_asc n t = Inr s \<Longrightarrow> cols s = cols t"
  by (auto simp: orderBy_asc_def and_then_eq_Inr)

lemma filter_rows_cols: "filter_rows p t = Inr s \<Longrightarrow> cols s = cols t"
  by (auto simp: filter_rows_def and_then_eq_Inr)

lemma cols_top_ranked_games:
  assumes "top_ranked_games fg = Inr q"
  shows "cols q = [''Rank'', ''Name'', ''Platform'', ''Global_Sales'', ''Year'']"
  using assms
  by (auto simp: top_ranked_games_def and_then_eq_Inr limit_rows_def ranked_columns_def named_def
      dest!: select_cols orderBy_asc_cols)

lemma cols_top_ranked_games_2010:
  assumes "top_ranked_games_2010 e fg = Inr q"
  shows "cols q = [''Rank'', ''Name'', ''Platform'', ''Global_Sales'', ''Year'']"
  using assms
  by (auto simp: top_ranked_games_2010_def and_then_eq_Inr limit_rows_def ranked_columns_def
      named_def dest!: select_cols orderBy_asc_cols filter_rows_cols)

lemma getitem_platform:
  assumes "cols df = [''Rank'', ''Name'', ''Platform'', ''Global_Sales'', ''Year'']"
  shows "getitem ''Platform'' df = Inr (platforms_of df)"
  by (simp add: getitem_def platforms_of_def assms cell_at_def schema eval_nat_numeral)

lemma setitem_color:
  assumes "cols df = [''Rank'', ''Name'', ''Platform'', ''Global_Sales'', ''Year'']"
  shows "setitem ''Color'' vs df =
     \<lparr>cols = [''Rank'', ''Name'', ''Platform'', ''Global_Sales'', ''Year'', ''Color''],
      rows = map (\<lambda>(i, r). [nth_cell r 0, nth_cell r 1, nth_cell r 2, nth_cell r 3, nth_cell r 4,
                              nth_cell vs i]) (enumerate 0 (indexed_rows vs df))\<rparr>"
  by (simp add: setitem_def assms cells eval_nat_numeral)

lemma indexed_rows_same_length:
  "length vs = length (rows df) \<Longrightarrow> indexed_rows vs df = rows df"
  by (auto simp: indexed_rows_def)

lemma length_indexed_rows:
  "length (indexed_rows vs df) = (if rows df = [] then length vs else length (rows df))"
  by (simp add: indexed_rows_def)

lemma map_enumerate_fst: "map (\<lambda>p. f (fst p)) (enumerate n xs) = map f [n..<n + length xs]"
proof -
  have "map (\<lambda>p. f (fst p)) (enumerate n xs) = map (f \<circ> fst) (enumerate n xs)"
    by (simp add: comp_def)
  also have "\<dots> = map f (map fst (enumerate n xs))"
    by (simp only: map_map)
  also have "\<dots> = map f [n..<n + length xs]"
    by (simp only: map_fst_enumerate)
  finally show ?thesis .
qed

lemma map_nth_cell_all: "map (nth_cell vs) [0..<length vs] = vs"
  by (intro nth_equalityI) (simp_all add: nth_cell_def)

lemma colors_of_setitem:
  assumes "cols df = [''Rank'', ''Name'', ''Platform'', ''Global_Sales'', ''Year'']"
  shows "colors_of (Inr (setitem ''Color'' vs df)) =
     Inr (if rows df = [] then vs else map (nth_cell vs) [0..<length (rows df)])"
proof -
  have "colors_of (Inr (setitem ''Color'' vs df)) =
      Inr (map (\<lambda>p. nth_cell vs (fst p)) (enumerate 0 (indexed_rows vs df)))"
    by (simp add: colors_of_def setitem_color[OF assms] getitem_def case_prod_unfold cells
        eval_nat_numeral)
  also have "map (\<lambda>p. nth_cell vs (fst p)) (enumerate 0 (indexed_rows vs df)) =
      map (nth_cell vs) [0..<0 + length (indexed_rows vs df)]"
    by (rule map_enumerate_fst)
  also have "\<dots> = (if rows df = [] then vs else map (nth_cell vs) [0..<length (rows df)])"
    by (simp add: length_indexed_rows map_nth_cell_all)
  finally show ?thesis .
qed

lemma length_setitem:
  "length (rows (setitem n vs df)) = (if rows df = [] then length vs else length (rows df))"
  by (simp add: setitem_def length_indexed_rows split: option.splits)

lemma top_ranked_games_pd_frame:
  assumes "top_ranked_games fg = Inr q1"
  shows "top_ranked_games_pd fg =
     Inr (setitem ''Color'' (series_map platform_colors_1 (platforms_of q1)) q1)"
  by (simp add: top_ranked_games_pd_def assms getitem_platform[OF cols_top_ranked_games[OF assms]])

lemma platforms_of_first_frame:
  assumes "cols df = [''Rank'', ''Name'', ''Platform'', ''Global_Sales'', ''Year'']"
  shows "getitem ''Platform'' (setitem ''Color'' (series_map d (platforms_of df)) df) =
     Inr (platforms_of df)"
proof -
  have i: "indexed_rows (series_map d (platforms_of df)) df = rows df"
    by (rule indexed_rows_same_length) (simp add: series_map_def platforms_of_def)
  have "getitem ''Platform'' (setitem ''Color'' (series_map d (platforms_of df)) df) =
      Inr (map (\<lambda>p. nth_cell (snd p) 2) (enumerate 0 (rows df)))"
    by (simp add: setitem_color[OF assms] i getitem_def case_prod_unfold cells eval_nat_numeral)
  also have "\<dots> = Inr (map (\<lambda>r. nth_cell r 2) (rows df))"
    by (rule arg_cong[where f = Inr]) (rule map_enumerate_snd)
  also have "\<dots> = Inr (platforms_of df)"
    by (simp add: platforms_of_def assms cell_at_def schema eval_nat_numeral)
  finally show ?thesis .
qed

lemma top_ranked_games_2010_pd_frame:
  assumes "top_ranked_games fg = Inr q1" and "top_ranked_games_2010 e fg = Inr q2"
  shows "top_ranked_games_2010_pd e fg =
     Inr (setitem ''Color'' (series_map platform_colors_2 (platforms_of q1)) q2)"
  by (simp add: top_ranked_games_2010_pd_def top_ranked_games_pd_frame[OF assms(1)] assms(2)
      platforms_of_first_frame[OF cols_top_ranked_games[OF assms(1)]])

lemma colors_2010:
  assumes "top_ranked_games fg = Inr q1" and "top_ranked_games_2010 e fg = Inr q2"
  shows "colors_of (top_ranked_games_2010_pd e fg) =
     Inr (if rows q2 = [] then series_map platform_colors_2 (platforms_of q1)
          else map (nth_cell (series_map platform_colors_2 (platforms_of q1)))
                 [0..<length (rows q2)])"
  by (simp only: top_ranked_games_2010_pd_frame[OF assms]
      colors_of_setitem[OF cols_top_ranked_games_2010[OF assms(2)]])

lemma colors_first:
  assumes "top_ranked_games fg = Inr q1"
  shows "colors_of (top_ranked_games_pd fg) =
     Inr (series_map platform_colors_1 (platforms_of q1))"
proof -
  have "(if rows q1 = [] then series_map platform_colors_1 (platforms_of q1)
      else map (nth_cell (series_map platform_colors_1 (platforms_of q1)))
        [0..<length (rows q1)]) = series_map platform_colors_1 (platforms_of q1)"
    using map_nth_cell_all[of "series_map platform_colors_1 (platforms_of q1)"]
    by (simp add: series_map_def platforms_of_def)
  then show ?thesis
    by (simp only: top_ranked_games_pd_frame[OF assms]
        colors_of_setitem[OF cols_top_ranked_games[OF assms]])
qed

lemma queries_on_final:
  assumes "cols fg = final_columns"
  shows "\<exists>q1 q2. top_ranked_games fg = Inr q1 \<and> top_ranked_games_2010 e fg = Inr q2"
  by (simp add: top_ranked_games_def top_ranked_games_2010_def ranked_columns_def steps
      orderBy_asc_def filter_rows_def date_ge_def assms final_columns_def
      cong: and_then_weak_cong)

subsection \<open>The run, the source column and the written file\<close>

lemma run_on_table:
  assumes "ingestion w = Inr (w', t)" and "transform e t = Inr fg"
  shows "run_pipeline e w = Inr (write_overwrite e transformed_path fg w')"
  by (simp add: run_pipeline_def assms)

lemma ingestion_fresh_world:
  "ingestion (fresh_world f) =
     Inr ((fresh_world f)\<lparr>catalog := [''gamestb'' \<mapsto> read_csv f]\<rparr>, read_csv f)"
  using ingestion_fresh[of "fresh_world f" f] by (simp add: fresh_world_def)

lemma run_fresh_world:
  assumes "transform (example_engine ps) (read_csv f) = Inr fg"
  shows "run_pipeline (example_engine ps) (fresh_world f) = Inr (world_after ps f fg)"
  by (simp add: run_on_table[OF ingestion_fresh_world assms] world_after_def)

lemma ingestion_world_after:
  "ingestion ((world_after ps f t)\<lparr>files := (files (world_after ps f t))(raw_path \<mapsto> f')\<rparr>) =
     Inr ((world_after ps f t)\<lparr>files := (files (world_after ps f t))(raw_path \<mapsto> f')\<rparr>,
          read_csv f)"
  by (rule ingestion_existing[where f = f'])
    (simp_all add: world_after_def write_overwrite_def fresh_world_def)

lemma ingestion_world_after_same:
  "ingestion (world_after ps f t) = Inr (world_after ps f t, read_csv f)"
  by (rule ingestion_existing[where f = f])
    (simp_all add: world_after_def write_overwrite_def fresh_world_def paths_differ)

lemma length_rows_corrected:
  assumes "cols t = vgsales_columns" and "corrected e t = Inr g"
  shows "length (rows g) = length (rows t)" and "cols g = corrected_columns"
  using assms(2) by (auto simp: corrected_rows[OF assms(1)] sort_desc_def)

lemma corrected_total:
  assumes "cols t = vgsales_columns"
  shows "\<exists>g. corrected e t = Inr g"
  by (simp add: corrected_rows[OF assms])

lemma corrected_global:
  "cell_at corrected_columns ''Global_Sales'' (ranked_row ps (i, corrected_row e r)) =
     add_cell (add_cell (add_cell
       (cell_at corrected_columns ''NA_Sales'' (ranked_row ps (i, corrected_row e r)))
       (cell_at corrected_columns ''EU_Sales'' (ranked_row ps (i, corrected_row e r))))
       (cell_at corrected_columns ''JP_Sales'' (ranked_row ps (i, corrected_row e r))))
       (cell_at corrected_columns ''Other_Sales'' (ranked_row ps (i, corrected_row e r)))"
  by (simp add: ranked_row_cells corrected_row_def corrected_cells cells eval_nat_numeral)

lemma source_global_ignored:
  "corrected_row e (normalize_row e (put_cell vgsales_columns ''Global_Sales'' v r)) =
   corrected_row e (normalize_row e r)"
  by (simp add: corrected_row_def normalize_row_def vgsales_columns_def schema cells
      eval_nat_numeral)

lemma withColumn_source_global:
  assumes "cols t = vgsales_columns" and "withColumn ''Global_Sales'' x t = Inr t'"
  shows "cols t' = vgsales_columns \<and>
         map (corrected_row e \<circ> normalize_row e) (rows t') =
         map (corrected_row e \<circ> normalize_row e) (rows t)"
proof -
  from assms(2) obtain f where t': "t' = \<lparr>cols = put_name (cols t) ''Global_Sales'',
      rows = map (\<lambda>(i, r). put_cell (cols t) ''Global_Sales'' (f i r) r) (enumerate 0 (rows t))\<rparr>"
    by (auto simp: withColumn_def and_then_eq_Inr)
  have c: "cols t' = vgsales_columns"
    by (simp add: t' assms(1) vgsales_columns_def schema)
  have "map (corrected_row e \<circ> normalize_row e) (rows t') =
      map (\<lambda>p. (corrected_row e \<circ> normalize_row e) (snd p)) (enumerate 0 (rows t))"
    by (simp add: t' assms(1) source_global_ignored case_prod_unfold)
  then have "map (corrected_row e \<circ> normalize_row e) (rows t') =
      map (corrected_row e \<circ> normalize_row e) (rows t)"
    by (simp only: map_enumerate_snd)
  with c show ?thesis
    by simp
qed

lemma cast_failures:
  "parse_int e s = None \<Longrightarrow> cast_int_cell e (Str s) = Null"
  "parse_date e s = None \<Longrightarrow> cast_date_cell e (Str s) = Null"
  "parse_double e s = None \<Longrightarrow> cast_double_cell e (Str s) = Null"
  by (simp_all add: cast_int_cell_def cast_date_cell_def cast_double_cell_def)

lemma normalized_cells:
  "cell_at vgsales_columns ''Rank'' (normalize_row e r) =
     cast_int_cell e (cell_at vgsales_columns ''Rank'' r)"
  "cell_at vgsales_columns ''Year'' (normalize_row e r) =
     cast_date_cell e (cell_at vgsales_columns ''Year'' r)"
  "cell_at vgsales_columns ''NA_Sales'' (normalize_row e r) =
     cast_double_cell e (cell_at vgsales_columns ''NA_Sales'' r)"
  "cell_at vgsales_columns ''EU_Sales'' (normalize_row e r) =
     cast_double_cell e (cell_at vgsales_columns ''EU_Sales'' r)"
  "cell_at vgsales_columns ''JP_Sales'' (normalize_row e r) =
     cast_double_cell e (cell_at vgsales_columns ''JP_Sales'' r)"
  "cell_at vgsales_columns ''Other_Sales'' (normalize_row e r) =
     cast_double_cell e (cell_at vgsales_columns ''Other_Sales'' r)"
  "cell_at vgsales_columns ''Global_Sales'' (normalize_row e r) =
     cast_double_cell e (cell_at vgsales_columns ''Global_Sales'' r)"
  by (simp_all add: normalize_row_def vgsales_columns_def cell_at_def schema cells
      eval_nat_numeral)

lemma final_row_by_name:
  "final_row e rs r =
     [cell_at columns_4 ''Rank'' (joined_row_of rs r),
      cell_at columns_4 ''Name'' (joined_row_of rs r),
      cell_at columns_4 ''Platform'' (joined_row_of rs r),
      cast_date_cell e (cell_at columns_4 ''year'' (joined_row_of rs r)),
      cell_at columns_4 ''Genre'' (joined_row_of rs r),
      cell_at columns_4 ''Publisher'' (joined_row_of rs r),
      cell_at columns_4 ''NA_Sales'' (joined_row_of rs r),
      cell_at columns_4 ''EU_Sales'' (joined_row_of rs r),
      cell_at columns_4 ''JP_Sales'' (joined_row_of rs r),
      cell_at columns_4 ''Other_Sales'' (joined_row_of rs r),
      cell_at columns_4 ''Global_Sales'' (joined_row_of rs r),
      cell_at columns_4 ''Game_Total_Sales'' (joined_row_of rs r),
      cell_at columns_4 ''Publisher_Total_Sales'' (joined_row_of rs r),
      cell_at columns_4 ''Platform_Total_Sales'' (joined_row_of rs r),
      cell_at columns_4 ''Genre_Total_Sales'' (joined_row_of rs r)]"
  by (simp add: final_row_def joined_row_of_cells columns_4_def cell_at_def schema cells)

lemma fit_final_row: "fit 15 (final_row e rs r) = final_row e rs r"
  by (simp add: final_row_def cells eval_nat_numeral)

lemma length_final_columns: "length final_columns = 15"
  by (simp add: final_columns_def)

lemma body_of_final:
  "body (to_csv e \<lparr>cols = final_columns, rows = map (final_row e rs) rs'\<rparr>) =
     map (\<lambda>r. map (field e) (final_row e rs r)) rs'"
  by (simp add: to_csv_def length_final_columns fit_final_row comp_def)

subsection \<open>The ranks on one partition\<close>

text \<open>
  When the sorted table is held in one partition, the identifiers of the rows are their
  positions, so the ranks are 1 to the number of rows. On any partitioning the corrected
  global sales descend along the table, the nulls last.
\<close>

lemma row_id_single: "row_id [] i = int i"
  by (simp add: row_id_def)

lemma single_partition_ranks:
  assumes "cols t = vgsales_columns" and "partition_sizes e = []"
  shows "\<exists>g. corrected e t = Inr g \<and>
     map (cell_at (cols g) ''Rank'') (rows g) = map (\<lambda>i. Num (int i + 1)) [0..<length (rows t)]"
proof -
  let ?rs = "sort_desc (map (corrected_row e \<circ> normalize_row e) (rows t))"
  have rank: "cell_at corrected_columns ''Rank'' (ranked_row [] p) = Num (int (fst p) + 1)"
    for p :: "nat \<times> 'a row"
    by (simp add: corrected_cells ranked_row_def row_id_single nth_cell_def)
  have "map (cell_at corrected_columns ''Rank'') (map (ranked_row []) (enumerate 0 ?rs)) =
      map (\<lambda>p. Num (int (fst p) + 1)) (enumerate 0 ?rs)"
    by (simp add: rank comp_def)
  also have "\<dots> = map (\<lambda>i. Num (int i + 1)) [0..<0 + length ?rs]"
    by (rule map_enumerate_fst)
  also have "\<dots> = map (\<lambda>i. Num (int i + 1)) [0..<length (rows t)]"
    by (simp add: length_sort_desc)
  finally show ?thesis
    by (simp add: corrected_rows[OF assms(1)] assms(2))
qed

lemma corrected_sales_descending:
  assumes "cols t = vgsales_columns"
  shows "\<exists>g. corrected e t = Inr g \<and>
     sorted (rev (map (\<lambda>r. dbl_key (cell_at (cols g) ''Global_Sales'' r)) (rows g)))"
proof -
  let ?rs = "sort_desc (map (corrected_row e \<circ> normalize_row e) (rows t))"
  have g: "cell_at corrected_columns ''Global_Sales'' (ranked_row ps p) = nth_cell (snd p) 10"
    for ps and p :: "nat \<times> 'a row"
    by (simp add: corrected_cells ranked_row_def cells eval_nat_numeral)
  have "map (\<lambda>r. dbl_key (cell_at corrected_columns ''Global_Sales'' r))
      (map (ranked_row (partition_sizes e)) (enumerate 0 ?rs)) =
      map (\<lambda>p. dbl_key (nth_cell (snd p) 10)) (enumerate 0 ?rs)"
    by (simp add: g comp_def)
  also have "\<dots> = map (\<lambda>r. dbl_key (nth_cell r 10)) ?rs"
    by (rule map_enumerate_snd)
  finally show ?thesis
    by (simp add: corrected_rows[OF assms] sort_desc_def rev_map[symmetric])
qed

subsection \<open>The totals of a table without nulls\<close>

text \<open>
  When line 93 would remove no row, every total of the final table is the sum of the
  corrected global sales over the rows that share the key, for an addition that is
  associative and commutative.
\<close>

lemma foldl_add_dbl: "foldl add_cell (Dbl x) (map Dbl xs) = Dbl (foldl (+) x xs)"
  by (induction xs arbitrary: x) simp_all

lemma sum_agg_dbl: "sum_agg (map Dbl (x # xs)) = Dbl (foldl (+) x xs)"
proof -
  have "filter (\<lambda>v. v \<noteq> Null) (map Dbl (x # xs)) = map Dbl (x # xs)"
    by (simp add: filter_id_conv)
  then show ?thesis
    unfolding sum_agg_def by (simp add: foldl_add_dbl)
qed

lemma foldl_add_four:
  fixes sa :: "'a::ab_semigroup_add"
  shows "foldl (+) (sa + sb + sc + sd) (map (\<lambda>r. a r + b r + c r + d r) xs) =
     foldl (+) sa (map a xs) + foldl (+) sb (map b xs) + foldl (+) sc (map c xs) +
     foldl (+) sd (map d xs)"
proof (induction xs arbitrary: sa sb sc sd)
  case Nil
  show ?case by simp
next
  case (Cons x xs)
  have "sa + sb + sc + sd + (a x + b x + c x + d x) = (sa + a x) + (sb + b x) + (sc + c x) + (sd + d x)"
    by (simp add: ac_simps)
  then show ?case
    by (simp add: Cons.IH)
qed

lemma sums_of_dbl_rows:
  fixes a :: "'a::ab_semigroup_add row \<Rightarrow> 'a"
  assumes "ys \<noteq> []"
    and "\<forall>r \<in> set ys. nth_cell r 6 = Dbl (a r) \<and> nth_cell r 7 = Dbl (b r) \<and>
           nth_cell r 8 = Dbl (c r) \<and> nth_cell r 9 = Dbl (d r) \<and>
           nth_cell r 10 = Dbl (a r + b r + c r + d r)"
  shows "add_cell (add_cell (add_cell (sum_agg (map (\<lambda>r. nth_cell r 6) ys))
           (sum_agg (map (\<lambda>r. nth_cell r 7) ys))) (sum_agg (map (\<lambda>r. nth_cell r 8) ys)))
           (sum_agg (map (\<lambda>r. nth_cell r 9) ys)) =
         sum_agg (map (\<lambda>r. nth_cell r 10) ys)"
proof -
  obtain y ys' where ys: "ys = y # ys'"
    using assms(1) by (cases ys) auto
  have ma: "map (\<lambda>r. nth_cell r 6) ys = map Dbl (a y # map a ys')"
    and mb: "map (\<lambda>r. nth_cell r 7) ys = map Dbl (b y # map b ys')"
    and mc: "map (\<lambda>r. nth_cell r 8) ys = map Dbl (c y # map c ys')"
    and md: "map (\<lambda>r. nth_cell r 9) ys = map Dbl (d y # map d ys')"
    and mg: "map (\<lambda>r. nth_cell r 10) ys =
        map Dbl ((a y + b y + c y + d y) # map (\<lambda>r. a r + b r + c r + d r) ys')"
    using assms(2) by (simp_all add: ys)
  show ?thesis
    unfolding ma mb mc md mg sum_agg_dbl by (simp add: foldl_add_four)
qed

lemma ne_Nil_if_mem: "x \<in> set xs \<Longrightarrow> xs \<noteq> []"
  by (cases xs) simp_all

lemma lookup_total_is_sum:
  fixes a :: "'a::ab_semigroup_add row \<Rightarrow> 'a"
  assumes "r \<in> set rs" and "nth_cell r i \<noteq> Null"
    and "\<forall>r \<in> set rs. nth_cell r 6 = Dbl (a r) \<and> nth_cell r 7 = Dbl (b r) \<and>
           nth_cell r 8 = Dbl (c r) \<and> nth_cell r 9 = Dbl (d r) \<and>
           nth_cell r 10 = Dbl (a r + b r + c r + d r)"
  shows "lookup_total rs i (nth_cell r i) =
     sum_agg (map (\<lambda>r. nth_cell r 10) (filter (\<lambda>r'. nth_cell r' i = nth_cell r i) rs))"
proof -
  let ?ys = "filter (\<lambda>r'. nth_cell r' i = nth_cell r i) rs"
  have key: "nth_cell r i \<in> set (group_keys rs i)"
    using assms(1) by (simp add: group_keys_def)
  have "r \<in> set ?ys"
    using assms(1) by simp
  then have ne: "?ys \<noteq> []"
    by (rule ne_Nil_if_mem)
  have "\<forall>r \<in> set ?ys. nth_cell r 6 = Dbl (a r) \<and> nth_cell r 7 = Dbl (b r) \<and>
           nth_cell r 8 = Dbl (c r) \<and> nth_cell r 9 = Dbl (d r) \<and>
           nth_cell r 10 = Dbl (a r + b r + c r + d r)"
    using assms(3) by simp
  from sums_of_dbl_rows[OF ne this] show ?thesis
    by (simp add: lookup_total_def key assms(2) group_total_def)
qed

lemma final_row_cells:
  "nth_cell (final_row e rs r) 1 = nth_cell r 1"
  "nth_cell (final_row e rs r) 2 = nth_cell r 2"
  "nth_cell (final_row e rs r) 4 = nth_cell r 4"
  "nth_cell (final_row e rs r) 5 = nth_cell r 5"
  "nth_cell (final_row e rs r) 10 = nth_cell r 10"
  "nth_cell (final_row e rs r) 11 = lookup_total rs 1 (nth_cell r 1)"
  "nth_cell (final_row e rs r) 12 = lookup_total rs 5 (nth_cell r 5)"
  "nth_cell (final_row e rs r) 13 = lookup_total rs 2 (nth_cell r 2)"
  "nth_cell (final_row e rs r) 14 = lookup_total rs 4 (nth_cell r 4)"
  by (simp_all add: final_row_def cells eval_nat_numeral)

lemma final_group:
  assumes "\<And>r. nth_cell (final_row e rs r) j = nth_cell r i"
  shows "map (\<lambda>r. nth_cell r 10)
       (filter (\<lambda>r'. nth_cell r' j = v) (map (final_row e rs) rs)) =
     map (\<lambda>r. nth_cell r 10) (filter (\<lambda>r'. nth_cell r' i = v) rs)"
  by (simp add: filter_map comp_def assms final_row_cells)

lemma complete_normalize_row:
  "complete 11 (normalize_row e r) =
     (cast_int_cell e (nth_cell r 0) \<noteq> Null \<and> nth_cell r 1 \<noteq> Null \<and> nth_cell r 2 \<noteq> Null \<and>
      cast_date_cell e (nth_cell r 3) \<noteq> Null \<and> nth_cell r 4 \<noteq> Null \<and> nth_cell r 5 \<noteq> Null \<and>
      cast_double_cell e (nth_cell r 6) \<noteq> Null \<and> cast_double_cell e (nth_cell r 7) \<noteq> Null \<and>
      cast_double_cell e (nth_cell r 8) \<noteq> Null \<and> cast_double_cell e (nth_cell r 9) \<noteq> Null \<and>
      cast_double_cell e (nth_cell r 10) \<noteq> Null)"
  by (simp add: complete_def normalize_row_def cells eval_nat_numeral)

lemma cast_double_cell_cases:
  "cast_double_cell e v = Null \<or> (\<exists>x. cast_double_cell e v = Dbl x)"
  by (simp add: cast_double_cell_def split: cell.splits option.splits)

lemma corrected_sales_cells:
  assumes "complete 11 (normalize_row e r0)"
  shows "\<exists>a b c d. nth_cell (ranked_row ps (i, corrected_row e (normalize_row e r0))) 6 = Dbl a \<and>
     nth_cell (ranked_row ps (i, corrected_row e (normalize_row e r0))) 7 = Dbl b \<and>
     nth_cell (ranked_row ps (i, corrected_row e (normalize_row e r0))) 8 = Dbl c \<and>
     nth_cell (ranked_row ps (i, corrected_row e (normalize_row e r0))) 9 = Dbl d \<and>
     nth_cell (ranked_row ps (i, corrected_row e (normalize_row e r0))) 10 = Dbl (a + b + c + d)"
proof -
  from assms cast_double_cell_cases[of e "nth_cell r0 6"] cast_double_cell_cases[of e "nth_cell r0 7"]
    cast_double_cell_cases[of e "nth_cell r0 8"] cast_double_cell_cases[of e "nth_cell r0 9"]
  obtain a b c d where "cast_double_cell e (nth_cell r0 6) = Dbl a"
    "cast_double_cell e (nth_cell r0 7) = Dbl b" "cast_double_cell e (nth_cell r0 8) = Dbl c"
    "cast_double_cell e (nth_cell r0 9) = Dbl d"
    unfolding complete_normalize_row by blast
  then show ?thesis
    by (simp add: ranked_row_cells corrected_row_def normalize_row_def cells eval_nat_numeral)
qed

lemma corrected_key_cells:
  assumes "complete 11 (normalize_row e r0)"
  shows "nth_cell (ranked_row ps (i, corrected_row e (normalize_row e r0))) 1 \<noteq> Null"
    "nth_cell (ranked_row ps (i, corrected_row e (normalize_row e r0))) 2 \<noteq> Null"
    "nth_cell (ranked_row ps (i, corrected_row e (normalize_row e r0))) 4 \<noteq> Null"
    "nth_cell (ranked_row ps (i, corrected_row e (normalize_row e r0))) 5 \<noteq> Null"
  using assms unfolding complete_normalize_row
  by (simp_all add: ranked_row_cells corrected_row_def normalize_row_def cells eval_nat_numeral)

lemma totals_are_group_sums:
  fixes t :: "'a::{ab_semigroup_add,linorder} table"
  assumes "cols t = vgsales_columns" and "schema_normalizer e t = Inr n"
    and "rows (dropna n) = rows n"
  shows "\<exists>fg. transform e t = Inr fg \<and> (\<forall>r \<in> set (rows fg).
     cell_at (cols fg) ''Game_Total_Sales'' r =
       sum_agg (map (cell_at (cols fg) ''Global_Sales'')
         (filter (\<lambda>r'. cell_at (cols fg) ''Name'' r' = cell_at (cols fg) ''Name'' r)
            (rows fg))) \<and>
     cell_at (cols fg) ''Publisher_Total_Sales'' r =
       sum_agg (map (cell_at (cols fg) ''Global_Sales'')
         (filter (\<lambda>r'. cell_at (cols fg) ''Publisher'' r' = cell_at (cols fg) ''Publisher'' r)
            (rows fg))) \<and>
     cell_at (cols fg) ''Platform_Total_Sales'' r =
       sum_agg (map (cell_at (cols fg) ''Global_Sales'')
         (filter (\<lambda>r'. cell_at (cols fg) ''Platform'' r' = cell_at (cols fg) ''Platform'' r)
            (rows fg))) \<and>
     cell_at (cols fg) ''Genre_Total_Sales'' r =
       sum_agg (map (cell_at (cols fg) ''Global_Sales'')
         (filter (\<lambda>r'. cell_at (cols fg) ''Genre'' r' = cell_at (cols fg) ''Genre'' r)
            (rows fg))))"
proof -
  obtain g where g: "corrected e t = Inr g"
    using corrected_total[OF assms(1)] by blast
  let ?rs = "rows g"
  let ?fg = "\<lparr>cols = final_columns, rows = map (final_row e ?rs) ?rs\<rparr>"
  have tr: "transform e t = Inr ?fg"
    by (rule transform_rows[OF assms(1) g])
  have complete: "complete 11 (normalize_row e r0)" if "r0 \<in> set (rows t)" for r0
  proof -
    have n: "n = \<lparr>cols = vgsales_columns, rows = map (normalize_row e) (rows t)\<rparr>"
      using assms(2) by (simp add: schema_normalizer_rows[OF assms(1)])
    have "filter (complete 11) (map (normalize_row e) (rows t)) = map (normalize_row e) (rows t)"
      using assms(3) by (simp add: n dropna_def vgsales_columns_def eval_nat_numeral)
    then have "\<forall>x \<in> set (map (normalize_row e) (rows t)). complete 11 x"
      by (simp only: filter_id_conv)
    with that show ?thesis
      by simp
  qed
  have "\<forall>r \<in> set ?rs. \<exists>a b c d. nth_cell r 6 = Dbl a \<and> nth_cell r 7 = Dbl b \<and>
      nth_cell r 8 = Dbl c \<and> nth_cell r 9 = Dbl d \<and> nth_cell r 10 = Dbl (a + b + c + d)"
    using corrected_row_origin[OF assms(1) g] corrected_sales_cells complete by metis
  then obtain a b c d where dbl: "\<forall>r \<in> set ?rs. nth_cell r 6 = Dbl (a r) \<and>
      nth_cell r 7 = Dbl (b r) \<and> nth_cell r 8 = Dbl (c r) \<and> nth_cell r 9 = Dbl (d r) \<and>
      nth_cell r 10 = Dbl (a r + b r + c r + d r)"
    by metis
  have "cell_at final_columns ''Game_Total_Sales'' r =
       sum_agg (map (cell_at final_columns ''Global_Sales'')
         (filter (\<lambda>r'. cell_at final_columns ''Name'' r' = cell_at final_columns ''Name'' r)
            (map (final_row e ?rs) ?rs))) \<and>
     cell_at final_columns ''Publisher_Total_Sales'' r =
       sum_agg (map (cell_at final_columns ''Global_Sales'')
         (filter (\<lambda>r'. cell_at final_columns ''Publisher'' r' =
                        cell_at final_columns ''Publisher'' r)
            (map (final_row e ?rs) ?rs))) \<and>
     cell_at final_columns ''Platform_Total_Sales'' r =
       sum_agg (map (cell_at final_columns ''Global_Sales'')
         (filter (\<lambda>r'. cell_at final_columns ''Platform'' r' =
                        cell_at final_columns ''Platform'' r)
            (map (final_row e ?rs) ?rs))) \<and>
     cell_at final_columns ''Genre_Total_Sales'' r =
       sum_agg (map (cell_at final_columns ''Global_Sales'')
         (filter (\<lambda>r'. cell_at final_columns ''Genre'' r' = cell_at final_columns ''Genre'' r)
            (map (final_row e ?rs) ?rs)))"
    if "r \<in> set (map (final_row e ?rs) ?rs)" for r
  proof -
    from that obtain x where x: "x \<in> set ?rs" and r: "r = final_row e ?rs x"
      by auto
    from corrected_row_origin[OF assms(1) g x] obtain i r0 where "r0 \<in> set (rows t)"
      and "x = ranked_row (partition_sizes e) (i, corrected_row e (normalize_row e r0))"
      by blast
    with corrected_key_cells[OF complete] have keys: "nth_cell x 1 \<noteq> Null"
      "nth_cell x 2 \<noteq> Null" "nth_cell x 4 \<noteq> Null" "nth_cell x 5 \<noteq> Null"
      by simp_all
    have k1: "nth_cell x (Suc 0) \<noteq> Null"
      using keys(1) by simp
    note sums = lookup_total_is_sum[OF x k1 dbl] lookup_total_is_sum[OF x keys(2) dbl]
      lookup_total_is_sum[OF x keys(3) dbl] lookup_total_is_sum[OF x keys(4) dbl]
    have f1: "nth_cell (final_row e rs r) (Suc 0) = nth_cell r (Suc 0)" for rs r
      using final_row_cells(1)[of e rs r] by simp
    have fn: "cell_at final_columns ''Global_Sales'' = (\<lambda>r. nth_cell r 10)"
      by (simp add: fun_eq_iff final_cells)
    show ?thesis
      unfolding r fn
      by (simp add: final_cells final_row_cells f1 final_group sums)
  qed
  then show ?thesis
    by (intro exI[of _ ?fg]) (simp add: tr)
qed

subsection \<open>The examples\<close>

lemma example_engine_fields:
  "parse_int (example_engine ps) = map_of [(''1'', 1), (''2'', 2), (''3'', 3)]"
  "parse_date (example_engine ps) =
     map_of [(''2006'', 13149), (''2013'', 15706), (''2010-01-01'', 14610)]"
  "parse_double (example_engine ps) =
     map_of [(''0.0'', 0), (''0.5'', 1 / 2), (''1.0'', 1), (''2.0'', 2), (''99.0'', 99)]"
  "format_yyyy (example_engine ps) =
     (\<lambda>d. if d = 13149 then ''2006'' else if d = 15706 then ''2013'' else ''1970'')"
  "render (example_engine ps) = example_render"
  "partition_sizes (example_engine ps) = ps"
  by (simp_all add: example_engine_def)

lemmas evals = cast_int_cell_def cast_date_cell_def cast_double_cell_def date_format_cell_def
  example_engine_fields normalize_row_def corrected_row_def nth_cell_def ranked_row_cells
  row_id_def sort_desc_def dbl_key_def

lemmas totals = final_row_def lookup_total_def group_total_def group_keys_def sum_agg_def

lemma read_csv_alpha:
  "read_csv alpha_file =
     \<lparr>cols = vgsales_columns,
      rows = [[Str ''1'', Str ''Alpha'', Str ''Wii'', Str ''2006'', Str ''Sports'', Str ''Acme'',
               Str ''1.0'', Str ''2.0'', Str ''0.0'', Str ''0.5'', Str ''99.0'']]\<rparr>"
  by (simp add: read_csv_def alpha_file_def vgsales_columns_def)

lemma read_csv_nulls:
  "read_csv nulls_file =
     \<lparr>cols = vgsales_columns,
      rows = [[Str ''1'', Str ''Alpha'', Str ''Wii'', Str ''2006'', Str ''Sports'', Str ''Acme'',
               Str ''1.0'', Str ''2.0'', Str ''0.0'', Str ''0.5'', Str ''99.0''],
              [Str ''x'', Str ''Beta'', Str ''PS4'', Str ''N/A'', Str ''Action'', Str ''Acme'',
               Str ''n/a'', Str ''2.0'', Str ''0.0'', Str ''0.5'', Str ''1.0'']]\<rparr>"
  by (simp add: read_csv_def nulls_file_def vgsales_columns_def)

lemma read_csv_pair:
  "read_csv pair_file =
     \<lparr>cols = vgsales_columns,
      rows = [[Str ''1'', Str ''Alpha'', Str ''Wii'', Str ''2006'', Str ''Sports'', Str ''Acme'',
               Str ''1.0'', Str ''2.0'', Str ''0.0'', Str ''0.5'', Str ''99.0''],
              [Str ''2'', Str ''Gamma'', Str ''PS4'', Str ''2013'', Str ''Action'', Str ''Acme'',
               Str ''2.0'', Str ''2.0'', Str ''0.0'', Str ''0.5'', Str ''1.0'']]\<rparr>"
  by (simp add: read_csv_def pair_file_def vgsales_columns_def)

lemma read_csv_acme:
  "read_csv acme_file =
     \<lparr>cols = vgsales_columns,
      rows = [[Str ''1'', Str ''Alpha'', Str ''Wii'', Str ''2006'', Str ''Sports'', Str ''Acme'',
               Str ''1.0'', Str ''0.0'', Str ''0.0'', Str ''0.0'', Str ''1.0''],
              [Str ''2'', Str ''Beta'', Str ''PS4'', Str ''2013'', Str ''Action'', Str ''Acme'',
               Str ''n/a'', Str ''2.0'', Str ''0.0'', Str ''0.0'', Str ''2.0'']]\<rparr>"
  by (simp add: read_csv_def acme_file_def vgsales_columns_def)

lemma read_csv_chart:
  "read_csv chart_file =
     \<lparr>cols = vgsales_columns,
      rows = [[Str ''1'', Str ''Alpha'', Str ''Wii'', Str ''2006'', Str ''Sports'', Str ''Acme'',
               Str ''2.0'', Str ''2.0'', Str ''0.0'', Str ''0.5'', Str ''99.0''],
              [Str ''2'', Str ''Gamma'', Str ''PS4'', Str ''2013'', Str ''Action'', Str ''Acme'',
               Str ''1.0'', Str ''2.0'', Str ''0.0'', Str ''0.5'', Str ''1.0'']]\<rparr>"
  by (simp add: read_csv_def chart_file_def vgsales_columns_def)

lemma read_csv_names:
  "read_csv names_file = \<lparr>cols = [''Name''], rows = [[Str ''Alpha'']]\<rparr>"
  by (simp add: read_csv_def names_file_def)

lemma normalized_alpha:
  "schema_normalizer (example_engine ps) (read_csv alpha_file) =
     Inr \<lparr>cols = vgsales_columns,
          rows = [[Num 1, Str ''Alpha'', Str ''Wii'', Date 13149, Str ''Sports'', Str ''Acme'',
                   Dbl 1, Dbl 2, Dbl 0, Dbl (1 / 2), Dbl 99]]\<rparr>"
  by (simp add: schema_normalizer_rows read_csv_alpha evals)

lemma normalized_nulls:
  "schema_normalizer (example_engine ps) (read_csv nulls_file) = Inr nulls_normalized"
  by (simp add: schema_normalizer_rows read_csv_nulls evals nulls_normalized_def)

lemma normalized_pair:
  "schema_normalizer (example_engine ps) (read_csv pair_file) = Inr pair_normalized"
  by (simp add: schema_normalizer_rows read_csv_pair evals pair_normalized_def)

lemma corrected_alpha:
  "corrected (example_engine []) (read_csv alpha_file) =
     Inr \<lparr>cols = corrected_columns,
          rows = [[Num 1, Str ''Alpha'', Str ''Wii'', Str ''2006'', Str ''Sports'', Str ''Acme'',
                   Dbl 1, Dbl 2, Dbl 0, Dbl (1 / 2), Dbl (7 / 2)]]\<rparr>"
  by (simp add: corrected_rows read_csv_alpha evals)

lemma corrected_nulls:
  "corrected (example_engine []) (read_csv nulls_file) = Inr nulls_corrected"
  by (simp add: corrected_rows read_csv_nulls evals nulls_corrected_def)

lemma corrected_pair:
  "corrected (example_engine ps) (read_csv pair_file) =
     Inr \<lparr>cols = corrected_columns,
          rows = [[Num (row_id ps 0 + 1), Str ''Gamma'', Str ''PS4'', Str ''2013'', Str ''Action'',
                   Str ''Acme'', Dbl 2, Dbl 2, Dbl 0, Dbl (1 / 2), Dbl (9 / 2)],
                  [Num (row_id ps 1 + 1), Str ''Alpha'', Str ''Wii'', Str ''2006'', Str ''Sports'',
                   Str ''Acme'', Dbl 1, Dbl 2, Dbl 0, Dbl (1 / 2), Dbl (7 / 2)]]\<rparr>"
  by (simp add: corrected_rows read_csv_pair cast_int_cell_def cast_date_cell_def
      cast_double_cell_def date_format_cell_def example_engine_fields normalize_row_def
      corrected_row_def nth_cell_def ranked_row_cells sort_desc_def dbl_key_def)

lemma corrected_acme:
  "corrected (example_engine []) (read_csv acme_file) =
     Inr \<lparr>cols = corrected_columns,
          rows = [[Num 1, Str ''Alpha'', Str ''Wii'', Str ''2006'', Str ''Sports'', Str ''Acme'',
                   Dbl 1, Dbl 0, Dbl 0, Dbl 0, Dbl 1],
                  [Num 2, Str ''Beta'', Str ''PS4'', Str ''2013'', Str ''Action'', Str ''Acme'',
                   Null, Dbl 2, Dbl 0, Dbl 0, Null]]\<rparr>"
  by (simp add: corrected_rows read_csv_acme evals)

lemma corrected_chart:
  "corrected (example_engine []) (read_csv chart_file) =
     Inr \<lparr>cols = corrected_columns,
          rows = [[Num 1, Str ''Alpha'', Str ''Wii'', Str ''2006'', Str ''Sports'', Str ''Acme'',
                   Dbl 2, Dbl 2, Dbl 0, Dbl (1 / 2), Dbl (9 / 2)],
                  [Num 2, Str ''Gamma'', Str ''PS4'', Str ''2013'', Str ''Action'', Str ''Acme'',
                   Dbl 1, Dbl 2, Dbl 0, Dbl (1 / 2), Dbl (7 / 2)]]\<rparr>"
  by (simp add: corrected_rows read_csv_chart evals)

lemma transformed_alpha: "transform (example_engine []) (read_csv alpha_file) = Inr alpha_final"
  apply (subst transform_rows[OF _ corrected_alpha])
   apply (simp add: read_csv_alpha)
  apply (simp add: totals evals alpha_final_def)
  done

lemma transformed_nulls: "transform (example_engine []) (read_csv nulls_file) = Inr nulls_final"
  apply (subst transform_rows[OF _ corrected_nulls])
   apply (simp add: read_csv_nulls)
  apply (simp add: totals evals nulls_final_def nulls_corrected_def)
  done

lemma transformed_pair:
  "transform (example_engine []) (read_csv pair_file) = Inr (pair_final 2)"
  "transform (example_engine [1]) (read_csv pair_file) = Inr (pair_final 8589934593)"
   apply (subst transform_rows[OF _ corrected_pair])
    apply (simp add: read_csv_pair)
   apply (simp add: totals cast_date_cell_def example_engine_fields nth_cell_def pair_final_def
      row_id_def)
  apply (subst transform_rows[OF _ corrected_pair])
   apply (simp add: read_csv_pair)
  apply (simp add: totals cast_date_cell_def example_engine_fields nth_cell_def pair_final_def
      row_id_def)
  done

lemma transformed_acme: "transform (example_engine []) (read_csv acme_file) = Inr acme_final"
  apply (subst transform_rows[OF _ corrected_acme])
   apply (simp add: read_csv_acme)
  apply (simp add: totals evals acme_final_def)
  done

lemma transformed_chart: "transform (example_engine []) (read_csv chart_file) = Inr chart_final"
  apply (subst transform_rows[OF _ corrected_chart])
   apply (simp add: read_csv_chart)
  apply (simp add: totals evals chart_final_def)
  done

lemma transform_names:
  "transform e (read_csv names_file) = Inl (UnresolvedColumn ''Rank'')"
  by (simp add: transform_def schema_normalizer_def withColumn_def exprs read_csv_names schema
      cong: and_then_weak_cong)

lemmas queries = top_ranked_games_def top_ranked_games_2010_def ranked_columns_def steps
  orderBy_asc_def filter_rows_def date_ge_def limit_rows_def final_columns_def int_key_def
  example_engine_fields nth_cell_def

lemma top_ranked_chart:
  "top_ranked_games chart_final =
     Inr \<lparr>cols = [''Rank'', ''Name'', ''Platform'', ''Global_Sales'', ''Year''],
          rows = [[Num 1, Str ''Alpha'', Str ''Wii'', Dbl (9 / 2), Date 13149],
                  [Num 2, Str ''Gamma'', Str ''PS4'', Dbl (7 / 2), Date 15706]]\<rparr>"
  by (simp add: chart_final_def queries cong: and_then_weak_cong)

lemma top_ranked_2010_chart:
  "top_ranked_games_2010 (example_engine []) chart_final =
     Inr \<lparr>cols = [''Rank'', ''Name'', ''Platform'', ''Global_Sales'', ''Year''],
          rows = [[Num 2, Str ''Gamma'', Str ''PS4'', Dbl (7 / 2), Date 15706]]\<rparr>"
  by (simp add: chart_final_def queries cong: and_then_weak_cong)

lemma top_ranked_nulls:
  "top_ranked_games nulls_final =
     Inr \<lparr>cols = [''Rank'', ''Name'', ''Platform'', ''Global_Sales'', ''Year''],
          rows = [[Num 1, Str ''Alpha'', Str ''Wii'', Dbl (7 / 2), Date 13149],
                  [Num 2, Str ''Beta'', Str ''PS4'', Null, Null]]\<rparr>"
  by (simp add: nulls_final_def queries cong: and_then_weak_cong)

lemma top_ranked_2010_nulls:
  "top_ranked_games_2010 (example_engine []) nulls_final =
     Inr \<lparr>cols = [''Rank'', ''Name'', ''Platform'', ''Global_Sales'', ''Year''], rows = []\<rparr>"
  by (simp add: nulls_final_def queries cong: and_then_weak_cong)

section \<open>The claims\<close>

subsection \<open>C10: the table is created only when there is none\<close>

text \<open>
  C10. Ingestion creates the table \<^verbatim>\<open>gamestb\<close> from the raw file only when the
  metastore has no table of that name, and leaves an existing table as it is. So a run
  that created the table from the file \<open>f\<close> is followed by runs that transform the table
  of \<open>f\<close>, whatever file \<open>f'\<close> the raw location holds by then: such a run ends as the
  transformation of the table of \<open>f\<close> ends, and when that gives a dataframe, it is the
  one that is written.
\<close>

theorem table_created_only_when_absent:
  assumes "files w raw_path = Some f"
  shows "(catalog w ''gamestb'' = None \<longrightarrow>
            ingestion w =
              Inr (w\<lparr>catalog := (catalog w)(''gamestb'' \<mapsto> read_csv f)\<rparr>, read_csv f)) \<and>
         (\<forall>old. catalog w ''gamestb'' = Some old \<longrightarrow> ingestion w = Inr (w, old)) \<and>
         (\<forall>w1 f'. catalog w ''gamestb'' = None \<and> run_pipeline e w = Inr w1 \<longrightarrow>
            run_pipeline e' (w1\<lparr>files := (files w1)(raw_path \<mapsto> f')\<rparr>) =
              and_then (transform e' (read_csv f))
                (\<lambda>finalgames. Inr (write_overwrite e' transformed_path finalgames
                     (w1\<lparr>files := (files w1)(raw_path \<mapsto> f')\<rparr>))))"
proof (intro conjI allI impI)
  assume "catalog w ''gamestb'' = None"
  with assms show "ingestion w =
      Inr (w\<lparr>catalog := (catalog w)(''gamestb'' \<mapsto> read_csv f)\<rparr>, read_csv f)"
    by (rule ingestion_fresh)
next
  fix old assume "catalog w ''gamestb'' = Some old"
  with assms show "ingestion w = Inr (w, old)"
    by (rule ingestion_existing)
next
  fix w1 f'
  assume a: "catalog w ''gamestb'' = None \<and> run_pipeline e w = Inr w1"
  let ?w = "w1\<lparr>files := (files w1)(raw_path \<mapsto> f')\<rparr>"
  from a assms have "ingestion w =
      Inr (w\<lparr>catalog := (catalog w)(''gamestb'' \<mapsto> read_csv f)\<rparr>, read_csv f)"
    by (simp add: ingestion_fresh)
  with a obtain fg where "w1 = write_overwrite e transformed_path fg
      (w\<lparr>catalog := (catalog w)(''gamestb'' \<mapsto> read_csv f)\<rparr>)"
    by (auto simp: run_pipeline_def and_then_eq_Inr)
  then have "catalog ?w ''gamestb'' = Some (read_csv f)"
    by (simp add: write_overwrite_def)
  then have "ingestion ?w = Inr (?w, read_csv f)"
    by (intro ingestion_existing[where f = f']) simp_all
  then show "run_pipeline e' ?w =
      and_then (transform e' (read_csv f))
        (\<lambda>finalgames. Inr (write_overwrite e' transformed_path finalgames ?w))"
    by (rule run_after_ingestion)
qed

text \<open>
  The first run creates the table from the file of Alpha; with the file of Beta at the
  raw location, the next run still writes the transformed table of Alpha.
\<close>

theorem table_created_only_when_absent_witness:
  "files (fresh_world alpha_file) raw_path = Some alpha_file \<and>
   catalog (fresh_world alpha_file) ''gamestb'' = None \<and>
   ingestion (fresh_world alpha_file) =
     Inr ((fresh_world alpha_file)\<lparr>catalog := [''gamestb'' \<mapsto> read_csv alpha_file]\<rparr>,
          read_csv alpha_file) \<and>
   run_pipeline (example_engine []) (fresh_world alpha_file) =
     Inr (world_after [] alpha_file alpha_final) \<and>
   run_pipeline (example_engine [])
     ((world_after [] alpha_file alpha_final)
        \<lparr>files := (files (world_after [] alpha_file alpha_final))(raw_path \<mapsto> beta_file)\<rparr>) =
     Inr (write_overwrite (example_engine []) transformed_path alpha_final
            ((world_after [] alpha_file alpha_final)
               \<lparr>files := (files (world_after [] alpha_file alpha_final))
                  (raw_path \<mapsto> beta_file)\<rparr>))"
proof -
  have f: "files (fresh_world alpha_file) raw_path = Some alpha_file"
    by (simp add: fresh_world_def)
  have c: "catalog (fresh_world alpha_file) ''gamestb'' = None"
    by (simp add: fresh_world_def)
  have r: "run_pipeline (example_engine []) (fresh_world alpha_file) =
      Inr (world_after [] alpha_file alpha_final)"
    by (rule run_fresh_world[OF transformed_alpha])
  show ?thesis
    using table_created_only_when_absent[OF f,
        where e = "example_engine []" and e' = "example_engine []"] r f c
    by (simp add: fresh_world_def transformed_alpha)
qed

subsection \<open>C5: a second run on another partitioning\<close>

text \<open>
  C5. The rank that line 113 writes depends on how the engine partitions the sorted
  dataframe, which the raw file does not decide. On the file of Alpha and Gamma, a first
  run that holds the sorted rows in one partition writes the ranks 1 and 2; a second run
  on the world the first run left, with the same table and the same order of rows, that
  holds the second row in a second partition writes the ranks 1 and 8589934593: the
  two files differ.
\<close>

theorem rerun_changes_ranks:
  "output_of (run_pipeline (example_engine []) (fresh_world pair_file)) =
     Some \<lparr>header = final_columns,
           body = [[''1'', ''Gamma'', ''PS4'', ''2013-01-01'', ''Action'', ''Acme'', ''2.0'',
                    ''2.0'', ''0.0'', ''0.5'', ''4.5'', ''4.5'', ''8.0'', ''4.5'', ''4.5''],
                   [''2'', ''Alpha'', ''Wii'', ''2006-01-01'', ''Sports'', ''Acme'', ''1.0'',
                    ''2.0'', ''0.0'', ''0.5'', ''3.5'', ''3.5'', ''8.0'', ''3.5'', ''3.5'']]\<rparr> \<and>
   output_of (and_then (run_pipeline (example_engine []) (fresh_world pair_file))
                (run_pipeline (example_engine [1]))) =
     Some \<lparr>header = final_columns,
           body = [[''1'', ''Gamma'', ''PS4'', ''2013-01-01'', ''Action'', ''Acme'', ''2.0'',
                    ''2.0'', ''0.0'', ''0.5'', ''4.5'', ''4.5'', ''8.0'', ''4.5'', ''4.5''],
                   [''8589934593'', ''Alpha'', ''Wii'', ''2006-01-01'', ''Sports'', ''Acme'',
                    ''1.0'', ''2.0'', ''0.0'', ''0.5'', ''3.5'', ''3.5'', ''8.0'', ''3.5'',
                    ''3.5'']]\<rparr>"
proof -
  have first: "run_pipeline (example_engine []) (fresh_world pair_file) =
      Inr (world_after [] pair_file (pair_final 2))"
    by (rule run_fresh_world[OF transformed_pair(1)])
  have second: "run_pipeline (example_engine [1]) (world_after [] pair_file (pair_final 2)) =
      Inr (write_overwrite (example_engine [1]) transformed_path (pair_final 8589934593)
             (world_after [] pair_file (pair_final 2)))"
    by (rule run_on_table[OF ingestion_world_after_same transformed_pair(2)])
  have csv: "to_csv (example_engine ps) (pair_final k) =
      \<lparr>header = final_columns,
       body = [[''1'', ''Gamma'', ''PS4'', ''2013-01-01'', ''Action'', ''Acme'', ''2.0'',
                ''2.0'', ''0.0'', ''0.5'', ''4.5'', ''4.5'', ''8.0'', ''4.5'', ''4.5''],
               [example_render (Num k), ''Alpha'', ''Wii'', ''2006-01-01'', ''Sports'', ''Acme'',
                ''1.0'', ''2.0'', ''0.0'', ''0.5'', ''3.5'', ''3.5'', ''8.0'', ''3.5'',
                ''3.5'']]\<rparr>" for ps k
    by (simp add: to_csv_def pair_final_def length_final_columns field_def
        example_engine_fields example_render_def cells eval_nat_numeral)
  have a: "output_of (run_pipeline (example_engine []) (fresh_world pair_file)) =
      Some (to_csv (example_engine []) (pair_final 2))"
    by (simp add: first output_of_def world_after_def write_overwrite_def)
  have b: "output_of (and_then (run_pipeline (example_engine []) (fresh_world pair_file))
      (run_pipeline (example_engine [1]))) =
      Some (to_csv (example_engine [1]) (pair_final 8589934593))"
    unfolding first and_then.simps second
    by (simp add: output_of_def write_overwrite_def del: One_nat_def)
  show ?thesis
    unfolding a b csv by (simp add: example_render_def)
qed

text \<open>
  With the same engine, and so the same partitioning, a run that succeeds leaves a world
  in which the next run succeeds and changes nothing.
\<close>

lemma rerun_same_engine:
  assumes "run_pipeline e w = Inr w1"
  shows "run_pipeline e w1 = Inr w1"
proof -
  from assms obtain w' g fg where ing: "ingestion w = Inr (w', g)"
    and tr: "transform e g = Inr fg"
    and w1: "w1 = write_overwrite e transformed_path fg w'"
    by (auto simp: run_pipeline_def and_then_eq_Inr split: sum.splits)
  from ingestion_result[OF ing] obtain f where f: "files w raw_path = Some f"
    and fw: "files w' = files w" and cg: "catalog w' ''gamestb'' = Some g" by auto
  have "files w1 raw_path = Some f"
    using f fw paths_differ by (simp add: w1 write_overwrite_def)
  moreover have "catalog w1 ''gamestb'' = Some g"
    using cg by (simp add: w1 write_overwrite_def)
  ultimately have "ingestion w1 = Inr (w1, g)" by (rule ingestion_existing)
  from run_on_table[OF this tr] show ?thesis
    by (simp add: w1 write_overwrite_def)
qed

subsection \<open>C9: the exported file\<close>

text \<open>
  C9. When ingestion gives a table with the header of the sales file, the run writes, at
  the output location, a file whose header is Rank, Name, Platform, Year, Genre,
  Publisher, NA_Sales, EU_Sales, JP_Sales, Other_Sales, Global_Sales, Game_Total_Sales,
  Publisher_Total_Sales, Platform_Total_Sales, Genre_Total_Sales, in this order, with
  one record for each row of the table. The dataframe of the four joins has its columns
  in another order, the keys of the joins first. Each record holds, in the order of the
  header, the fields of the cells that the row of that dataframe has under these names,
  the year being cast to a date: the data stand under their own names. The
  output location is not the raw location, the raw file is left as it was, and the file
  written does not depend on what the output location held before.
\<close>

theorem export_layout:
  assumes "ingestion w = Inr (w', gamestb)" and "cols gamestb = vgsales_columns"
  shows "\<exists>w2 out g df.
     run_pipeline e w = Inr w2 \<and>
     files w2 transformed_path = Some out \<and>
     corrected e gamestb = Inr g \<and>
     df_with_totals_publisher_platform_genre g = Inr df \<and>
     cols df =
       [''Genre'', ''Platform'', ''Publisher'', ''Name'', ''Rank'', ''year'', ''NA_Sales'',
        ''EU_Sales'', ''JP_Sales'', ''Other_Sales'', ''Global_Sales'', ''Game_Total_Sales'',
        ''Publisher_Total_Sales'', ''Platform_Total_Sales'', ''Genre_Total_Sales''] \<and>
     header out =
       [''Rank'', ''Name'', ''Platform'', ''Year'', ''Genre'', ''Publisher'', ''NA_Sales'',
        ''EU_Sales'', ''JP_Sales'', ''Other_Sales'', ''Global_Sales'', ''Game_Total_Sales'',
        ''Publisher_Total_Sales'', ''Platform_Total_Sales'', ''Genre_Total_Sales''] \<and>
     length (body out) = length (rows gamestb) \<and>
     length (rows df) = length (rows gamestb) \<and>
     (\<forall>i < length (rows df).
        body out ! i =
          map (field e)
            [cell_at (cols df) ''Rank'' (rows df ! i),
             cell_at (cols df) ''Name'' (rows df ! i),
             cell_at (cols df) ''Platform'' (rows df ! i),
             cast_date_cell e (cell_at (cols df) ''year'' (rows df ! i)),
             cell_at (cols df) ''Genre'' (rows df ! i),
             cell_at (cols df) ''Publisher'' (rows df ! i),
             cell_at (cols df) ''NA_Sales'' (rows df ! i),
             cell_at (cols df) ''EU_Sales'' (rows df ! i),
             cell_at (cols df) ''JP_Sales'' (rows df ! i),
             cell_at (cols df) ''Other_Sales'' (rows df ! i),
             cell_at (cols df) ''Global_Sales'' (rows df ! i),
             cell_at (cols df) ''Game_Total_Sales'' (rows df ! i),
             cell_at (cols df) ''Publisher_Total_Sales'' (rows df ! i),
             cell_at (cols df) ''Platform_Total_Sales'' (rows df ! i),
             cell_at (cols df) ''Genre_Total_Sales'' (rows df ! i)]) \<and>
     transformed_path \<noteq> raw_path \<and>
     files w2 raw_path = files w raw_path \<and>
     (\<forall>old. \<exists>w3.
        run_pipeline e (w\<lparr>files := (files w)(transformed_path \<mapsto> old)\<rparr>) = Inr w3 \<and>
        files w3 transformed_path = Some out)"
proof -
  obtain g where g: "corrected e gamestb = Inr g"
    using corrected_total[OF assms(2)] by blast
  note cg = length_rows_corrected[OF assms(2) g]
  let ?df = "\<lparr>cols = columns_4, rows = map (joined_row_of (rows g)) (rows g)\<rparr>"
  let ?fg = "\<lparr>cols = final_columns, rows = map (final_row e (rows g)) (rows g)\<rparr>"
  let ?out = "to_csv e ?fg"
  let ?w2 = "write_overwrite e transformed_path ?fg w'"
  have df: "df_with_totals_publisher_platform_genre g = Inr ?df"
    by (rule df_with_totals_publisher_platform_genre_rows[OF cg(2)])
  have tr: "transform e gamestb = Inr ?fg"
    by (rule transform_rows[OF assms(2) g])
  have run: "run_pipeline e w = Inr ?w2"
    by (rule run_on_table[OF assms(1) tr])
  have out: "files ?w2 transformed_path = Some ?out"
    by (simp add: write_overwrite_def)
  have hd: "header ?out = final_columns"
    by (simp add: header_to_csv)
  have len: "length (body ?out) = length (rows gamestb)"
    by (simp add: length_body_to_csv cg(1))
  have lendf: "length (rows ?df) = length (rows gamestb)"
    by (simp add: cg(1))
  have records: "\<forall>i < length (rows ?df).
        body ?out ! i =
          map (field e)
            [cell_at (cols ?df) ''Rank'' (rows ?df ! i),
             cell_at (cols ?df) ''Name'' (rows ?df ! i),
             cell_at (cols ?df) ''Platform'' (rows ?df ! i),
             cast_date_cell e (cell_at (cols ?df) ''year'' (rows ?df ! i)),
             cell_at (cols ?df) ''Genre'' (rows ?df ! i),
             cell_at (cols ?df) ''Publisher'' (rows ?df ! i),
             cell_at (cols ?df) ''NA_Sales'' (rows ?df ! i),
             cell_at (cols ?df) ''EU_Sales'' (rows ?df ! i),
             cell_at (cols ?df) ''JP_Sales'' (rows ?df ! i),
             cell_at (cols ?df) ''Other_Sales'' (rows ?df ! i),
             cell_at (cols ?df) ''Global_Sales'' (rows ?df ! i),
             cell_at (cols ?df) ''Game_Total_Sales'' (rows ?df ! i),
             cell_at (cols ?df) ''Publisher_Total_Sales'' (rows ?df ! i),
             cell_at (cols ?df) ''Platform_Total_Sales'' (rows ?df ! i),
             cell_at (cols ?df) ''Genre_Total_Sales'' (rows ?df ! i)]"
  proof (intro allI impI)
    fix i assume "i < length (rows ?df)"
    then have i: "i < length (rows g)"
      by simp
    then have "body ?out ! i = map (field e) (final_row e (rows g) (rows g ! i))"
      by (simp add: body_of_final)
    also have "final_row e (rows g) (rows g ! i) =
        [cell_at columns_4 ''Rank'' (joined_row_of (rows g) (rows g ! i)),
         cell_at columns_4 ''Name'' (joined_row_of (rows g) (rows g ! i)),
         cell_at columns_4 ''Platform'' (joined_row_of (rows g) (rows g ! i)),
         cast_date_cell e (cell_at columns_4 ''year'' (joined_row_of (rows g) (rows g ! i))),
         cell_at columns_4 ''Genre'' (joined_row_of (rows g) (rows g ! i)),
         cell_at columns_4 ''Publisher'' (joined_row_of (rows g) (rows g ! i)),
         cell_at columns_4 ''NA_Sales'' (joined_row_of (rows g) (rows g ! i)),
         cell_at columns_4 ''EU_Sales'' (joined_row_of (rows g) (rows g ! i)),
         cell_at columns_4 ''JP_Sales'' (joined_row_of (rows g) (rows g ! i)),
         cell_at columns_4 ''Other_Sales'' (joined_row_of (rows g) (rows g ! i)),
         cell_at columns_4 ''Global_Sales'' (joined_row_of (rows g) (rows g ! i)),
         cell_at columns_4 ''Game_Total_Sales'' (joined_row_of (rows g) (rows g ! i)),
         cell_at columns_4 ''Publisher_Total_Sales'' (joined_row_of (rows g) (rows g ! i)),
         cell_at columns_4 ''Platform_Total_Sales'' (joined_row_of (rows g) (rows g ! i)),
         cell_at columns_4 ''Genre_Total_Sales'' (joined_row_of (rows g) (rows g ! i))]"
      by (rule final_row_by_name)
    finally show "body ?out ! i =
          map (field e)
            [cell_at (cols ?df) ''Rank'' (rows ?df ! i),
             cell_at (cols ?df) ''Name'' (rows ?df ! i),
             cell_at (cols ?df) ''Platform'' (rows ?df ! i),
             cast_date_cell e (cell_at (cols ?df) ''year'' (rows ?df ! i)),
             cell_at (cols ?df) ''Genre'' (rows ?df ! i),
             cell_at (cols ?df) ''Publisher'' (rows ?df ! i),
             cell_at (cols ?df) ''NA_Sales'' (rows ?df ! i),
             cell_at (cols ?df) ''EU_Sales'' (rows ?df ! i),
             cell_at (cols ?df) ''JP_Sales'' (rows ?df ! i),
             cell_at (cols ?df) ''Other_Sales'' (rows ?df ! i),
             cell_at (cols ?df) ''Global_Sales'' (rows ?df ! i),
             cell_at (cols ?df) ''Game_Total_Sales'' (rows ?df ! i),
             cell_at (cols ?df) ''Publisher_Total_Sales'' (rows ?df ! i),
             cell_at (cols ?df) ''Platform_Total_Sales'' (rows ?df ! i),
             cell_at (cols ?df) ''Genre_Total_Sales'' (rows ?df ! i)]"
      using i by simp
  qed
  from ingestion_result[OF assms(1)] have fw: "files w' = files w"
    and cat: "catalog w' ''gamestb'' = Some gamestb" and ex: "files w raw_path \<noteq> None"
    by auto
  have raw: "files ?w2 raw_path = files w raw_path"
    using paths_differ by (simp add: write_overwrite_def fw)
  have again: "\<exists>w3. run_pipeline e (w\<lparr>files := (files w)(transformed_path \<mapsto> old)\<rparr>) = Inr w3 \<and>
      files w3 transformed_path = Some ?out" for old
  proof -
    let ?v = "w\<lparr>files := (files w)(transformed_path \<mapsto> old)\<rparr>"
    have "ingestion ?v = Inr (w'\<lparr>files := (files w)(transformed_path \<mapsto> old)\<rparr>, gamestb)"
      using assms(1) paths_differ
      by (auto simp: ingestion_def create_table_if_not_exists_def Let_def
          split: option.splits)
    from run_on_table[OF this tr] show ?thesis
      by (simp add: write_overwrite_def)
  qed
  have hd': "header ?out =
       [''Rank'', ''Name'', ''Platform'', ''Year'', ''Genre'', ''Publisher'', ''NA_Sales'',
        ''EU_Sales'', ''JP_Sales'', ''Other_Sales'', ''Global_Sales'', ''Game_Total_Sales'',
        ''Publisher_Total_Sales'', ''Platform_Total_Sales'', ''Genre_Total_Sales'']"
    unfolding hd by (simp add: final_columns_def)
  have pd: "transformed_path \<noteq> raw_path"
    using paths_differ by simp
  have cdf: "cols ?df =
       [''Genre'', ''Platform'', ''Publisher'', ''Name'', ''Rank'', ''year'', ''NA_Sales'',
        ''EU_Sales'', ''JP_Sales'', ''Other_Sales'', ''Global_Sales'', ''Game_Total_Sales'',
        ''Publisher_Total_Sales'', ''Platform_Total_Sales'', ''Genre_Total_Sales'']"
    by (simp add: columns_4_def)
  show ?thesis
    by (intro exI[of _ ?w2] exI[of _ ?out] exI[of _ g] exI[of _ ?df] conjI run out g df cdf hd' len
        lendf records pd raw allI again)
qed

theorem export_layout_witness:
  "ingestion (fresh_world alpha_file) =
     Inr ((fresh_world alpha_file)\<lparr>catalog := [''gamestb'' \<mapsto> read_csv alpha_file]\<rparr>,
          read_csv alpha_file) \<and>
   cols (read_csv alpha_file) = vgsales_columns \<and>
   output_of (run_pipeline (example_engine []) (fresh_world alpha_file)) =
     Some \<lparr>header =
             [''Rank'', ''Name'', ''Platform'', ''Year'', ''Genre'', ''Publisher'', ''NA_Sales'',
              ''EU_Sales'', ''JP_Sales'', ''Other_Sales'', ''Global_Sales'', ''Game_Total_Sales'',
              ''Publisher_Total_Sales'', ''Platform_Total_Sales'', ''Genre_Total_Sales''],
           body = [[''1'', ''Alpha'', ''Wii'', ''2006-01-01'', ''Sports'', ''Acme'', ''1.0'',
                    ''2.0'', ''0.0'', ''0.5'', ''3.5'', ''3.5'', ''3.5'', ''3.5'', ''3.5'']]\<rparr>"
proof -
  have c: "cols (read_csv alpha_file) = vgsales_columns"
    by (simp add: read_csv_alpha)
  from export_layout[OF ingestion_fresh_world c, of "example_engine []"]
  obtain w2 out where run: "run_pipeline (example_engine []) (fresh_world alpha_file) = Inr w2"
    and out: "files w2 transformed_path = Some out"
    and hd: "header out =
       [''Rank'', ''Name'', ''Platform'', ''Year'', ''Genre'', ''Publisher'', ''NA_Sales'',
        ''EU_Sales'', ''JP_Sales'', ''Other_Sales'', ''Global_Sales'', ''Game_Total_Sales'',
        ''Publisher_Total_Sales'', ''Platform_Total_Sales'', ''Genre_Total_Sales'']"
    by blast
  have "w2 = world_after [] alpha_file alpha_final"
    using run run_fresh_world[OF transformed_alpha] by simp
  then have "out = to_csv (example_engine []) alpha_final"
    using out by (simp add: world_after_def write_overwrite_def)
  then have "body out =
      [[''1'', ''Alpha'', ''Wii'', ''2006-01-01'', ''Sports'', ''Acme'', ''1.0'',
        ''2.0'', ''0.0'', ''0.5'', ''3.5'', ''3.5'', ''3.5'', ''3.5'', ''3.5'']]"
    by (simp add: to_csv_def alpha_final_def length_final_columns field_def
        example_engine_fields example_render_def cells eval_nat_numeral)
  with hd have "out = \<lparr>header =
             [''Rank'', ''Name'', ''Platform'', ''Year'', ''Genre'', ''Publisher'', ''NA_Sales'',
              ''EU_Sales'', ''JP_Sales'', ''Other_Sales'', ''Global_Sales'', ''Game_Total_Sales'',
              ''Publisher_Total_Sales'', ''Platform_Total_Sales'', ''Genre_Total_Sales''],
           body = [[''1'', ''Alpha'', ''Wii'', ''2006-01-01'', ''Sports'', ''Acme'', ''1.0'',
                    ''2.0'', ''0.0'', ''0.5'', ''3.5'', ''3.5'', ''3.5'', ''3.5'', ''3.5'']]\<rparr>"
    by (cases out) simp
  then show ?thesis
    using run out c ingestion_fresh_world[of alpha_file] by (simp add: output_of_def)
qed

subsection \<open>C3: the global sales are recomputed\<close>

text \<open>
  C3. On a table with the header of the sales file the Schema Normalizer and the Data
  Corrector give a table, and in every row of it the cell Global_Sales is the sum
  NA_Sales + EU_Sales + JP_Sales + Other_Sales of the cells of that row (null when one
  of them is null). The value of the source does not matter: replacing the column
  Global_Sales of the raw table by any column gives the same corrected table. No row is
  lost on the way. For the row of Alpha, with regional sales 1.0, 2.0, 0.0 and 0.5 and
  the value 99.0 in the source, the corrected Global_Sales is 3.5.
\<close>

theorem global_sales_recomputed:
  assumes "cols t = vgsales_columns"
  shows "(\<exists>g. corrected e t = Inr g \<and>
            (\<forall>r \<in> set (rows g).
               cell_at (cols g) ''Global_Sales'' r =
                 add_cell (add_cell (add_cell
                   (cell_at (cols g) ''NA_Sales'' r)
                   (cell_at (cols g) ''EU_Sales'' r))
                   (cell_at (cols g) ''JP_Sales'' r))
                   (cell_at (cols g) ''Other_Sales'' r)) \<and>
            (\<forall>x t'. withColumn ''Global_Sales'' x t = Inr t' \<longrightarrow> corrected e t' = Inr g) \<and>
            length (rows g) = length (rows t)) \<and>
         corrected (example_engine []) (read_csv alpha_file) =
           Inr \<lparr>cols = corrected_columns,
                rows = [[Num 1, Str ''Alpha'', Str ''Wii'', Str ''2006'', Str ''Sports'',
                         Str ''Acme'', Dbl 1, Dbl 2, Dbl 0, Dbl 0.5, Dbl 3.5]]\<rparr>"
proof -
  let ?g = "\<lparr>cols = corrected_columns,
      rows = map (ranked_row (partition_sizes e))
        (enumerate 0 (sort_desc (map (corrected_row e \<circ> normalize_row e) (rows t))))\<rparr>"
  have g: "corrected e t = Inr ?g"
    by (rule corrected_rows[OF assms])
  have sums: "\<forall>r \<in> set (rows ?g).
      cell_at (cols ?g) ''Global_Sales'' r =
        add_cell (add_cell (add_cell
          (cell_at (cols ?g) ''NA_Sales'' r)
          (cell_at (cols ?g) ''EU_Sales'' r))
          (cell_at (cols ?g) ''JP_Sales'' r))
          (cell_at (cols ?g) ''Other_Sales'' r)"
  proof
    fix r
    assume "r \<in> set (rows ?g)"
    then obtain i r' where r': "r = ranked_row (partition_sizes e) (i, r')"
      and "(i, r') \<in> set (enumerate 0
             (sort_desc (map (corrected_row e \<circ> normalize_row e) (rows t))))"
      by auto
    then have "r' \<in> set (sort_desc (map (corrected_row e \<circ> normalize_row e) (rows t)))"
      by (auto simp: in_set_enumerate_eq)
    then obtain r0 where "r' = corrected_row e (normalize_row e r0)"
      by (auto simp: set_sort_desc)
    with r' obtain r0 where r: "r = ranked_row (partition_sizes e) (i, corrected_row e r0)"
      by blast
    show "cell_at (cols ?g) ''Global_Sales'' r =
        add_cell (add_cell (add_cell
          (cell_at (cols ?g) ''NA_Sales'' r)
          (cell_at (cols ?g) ''EU_Sales'' r))
          (cell_at (cols ?g) ''JP_Sales'' r))
          (cell_at (cols ?g) ''Other_Sales'' r)"
      unfolding r by (simp add: corrected_global)
  qed
  have source: "\<forall>x t'. withColumn ''Global_Sales'' x t = Inr t' \<longrightarrow> corrected e t' = Inr ?g"
  proof (intro allI impI)
    fix x t'
    assume "withColumn ''Global_Sales'' x t = Inr t'"
    from withColumn_source_global[OF assms this, of e]
    show "corrected e t' = Inr ?g"
      by (simp add: corrected_rows)
  qed
  have len: "length (rows ?g) = length (rows t)"
    by (simp add: length_sort_desc)
  have alpha: "corrected (example_engine []) (read_csv alpha_file) =
      Inr \<lparr>cols = corrected_columns,
           rows = [[Num 1, Str ''Alpha'', Str ''Wii'', Str ''2006'', Str ''Sports'',
                    Str ''Acme'', Dbl 1, Dbl 2, Dbl 0, Dbl 0.5, Dbl 3.5]]\<rparr>"
    by (simp add: corrected_alpha)
  show ?thesis
    by (intro conjI exI[of _ ?g] g sums source len alpha)
qed

theorem global_sales_recomputed_witness:
  "cols (read_csv alpha_file) = vgsales_columns \<and>
   map_sum id (\<lambda>g. map (cell_at (cols g) ''Global_Sales'') (rows g))
     (corrected (example_engine []) (read_csv alpha_file)) = Inr [Dbl 3.5] \<and>
   and_then (withColumn ''Global_Sales'' (lit (Str ''0.0'')) (read_csv alpha_file))
     (corrected (example_engine [])) =
   corrected (example_engine []) (read_csv alpha_file)"
proof -
  have c: "cols (read_csv alpha_file) = vgsales_columns"
    by (simp add: read_csv_alpha)
  have "\<exists>t' :: rat table.
      withColumn ''Global_Sales'' (lit (Str ''0.0'')) (read_csv alpha_file) = Inr t'"
    by (simp add: withColumn_def lit_def)
  then obtain t' :: "rat table" where
    t': "withColumn ''Global_Sales'' (lit (Str ''0.0'')) (read_csv alpha_file) = Inr t'"
    by blast
  from global_sales_recomputed[OF c, of "example_engine []"]
  obtain g where g: "corrected (example_engine []) (read_csv alpha_file) = Inr g"
    and same: "\<forall>x t'. withColumn ''Global_Sales'' x (read_csv alpha_file) = Inr t' \<longrightarrow>
      corrected (example_engine []) t' = Inr g"
    by blast
  from same t' have "corrected (example_engine []) t' = Inr g"
    by blast
  moreover have "g = \<lparr>cols = corrected_columns,
      rows = [[Num 1, Str ''Alpha'', Str ''Wii'', Str ''2006'', Str ''Sports'',
               Str ''Acme'', Dbl 1, Dbl 2, Dbl 0, Dbl 0.5, Dbl 3.5]]\<rparr>"
    using g by (simp add: corrected_alpha)
  ultimately show ?thesis
    using c by (simp add: t' corrected_alpha corrected_cells nth_cell_def)
qed

subsection \<open>C8: a cast that fails gives null\<close>

text \<open>
  C8. On a table with the header of the sales file the Schema Normalizer gives a table
  with the same schema and the same number of rows. Where the parser of the target type
  refuses the string of a cell of Rank, Year or one of the five sales columns, the cell
  of the normalized table is null. The casts add no way for the run to stop: when
  ingestion gives such a table, the run ends with a world and a file with one record
  for each row of the table, whatever the parsers accept.
\<close>

theorem cast_failure_gives_null:
  assumes "cols t = vgsales_columns"
  shows "\<exists>n. schema_normalizer e t = Inr n \<and>
     cols n = vgsales_columns \<and>
     length (rows n) = length (rows t) \<and>
     (\<forall>i < length (rows t). \<forall>s.
        (cell_at (cols t) ''Rank'' (rows t ! i) = Str s \<and> parse_int e s = None \<longrightarrow>
           cell_at (cols n) ''Rank'' (rows n ! i) = Null) \<and>
        (cell_at (cols t) ''Year'' (rows t ! i) = Str s \<and> parse_date e s = None \<longrightarrow>
           cell_at (cols n) ''Year'' (rows n ! i) = Null) \<and>
        (\<forall>c \<in> set [''NA_Sales'', ''EU_Sales'', ''JP_Sales'', ''Other_Sales'', ''Global_Sales''].
           cell_at (cols t) c (rows t ! i) = Str s \<and> parse_double e s = None \<longrightarrow>
           cell_at (cols n) c (rows n ! i) = Null)) \<and>
     (\<forall>w w'. ingestion w = Inr (w', t) \<longrightarrow>
        (\<exists>w2 out. run_pipeline e w = Inr w2 \<and> files w2 transformed_path = Some out \<and>
                  length (body out) = length (rows t)))"
proof -
  let ?n = "\<lparr>cols = vgsales_columns, rows = map (normalize_row e) (rows t)\<rparr>"
  have n: "schema_normalizer e t = Inr ?n"
    by (rule schema_normalizer_rows[OF assms])
  have cs: "cols ?n = vgsales_columns"
    by simp
  have len: "length (rows ?n) = length (rows t)"
    by simp
  have nulls: "\<forall>i < length (rows t). \<forall>s.
        (cell_at (cols t) ''Rank'' (rows t ! i) = Str s \<and> parse_int e s = None \<longrightarrow>
           cell_at (cols ?n) ''Rank'' (rows ?n ! i) = Null) \<and>
        (cell_at (cols t) ''Year'' (rows t ! i) = Str s \<and> parse_date e s = None \<longrightarrow>
           cell_at (cols ?n) ''Year'' (rows ?n ! i) = Null) \<and>
        (\<forall>c \<in> set [''NA_Sales'', ''EU_Sales'', ''JP_Sales'', ''Other_Sales'', ''Global_Sales''].
           cell_at (cols t) c (rows t ! i) = Str s \<and> parse_double e s = None \<longrightarrow>
           cell_at (cols ?n) c (rows ?n ! i) = Null)"
    by (simp add: assms normalized_cells cast_failures)
  have run: "\<forall>w w'. ingestion w = Inr (w', t) \<longrightarrow>
        (\<exists>w2 out. run_pipeline e w = Inr w2 \<and> files w2 transformed_path = Some out \<and>
                  length (body out) = length (rows t))"
  proof (intro allI impI)
    fix w w' :: "'a world"
    assume ing: "ingestion w = Inr (w', t)"
    obtain g where g: "corrected e t = Inr g"
      using corrected_total[OF assms] by blast
    let ?fg = "\<lparr>cols = final_columns, rows = map (final_row e (rows g)) (rows g)\<rparr>"
    have "run_pipeline e w = Inr (write_overwrite e transformed_path ?fg w')"
      by (rule run_on_table[OF ing transform_rows[OF assms g]])
    moreover have "files (write_overwrite e transformed_path ?fg w') transformed_path =
        Some (to_csv e ?fg)"
      by (simp add: write_overwrite_def)
    moreover have "length (body (to_csv e ?fg)) = length (rows t)"
      by (simp add: length_body_to_csv length_rows_corrected(1)[OF assms g])
    ultimately show "\<exists>w2 out. run_pipeline e w = Inr w2 \<and>
        files w2 transformed_path = Some out \<and> length (body out) = length (rows t)"
      by blast
  qed
  show ?thesis
    by (intro exI[of _ ?n] conjI n cs len nulls run)
qed

theorem cast_failure_gives_null_witness:
  "cols (read_csv nulls_file) = vgsales_columns \<and>
   rows (read_csv nulls_file) ! 1 =
     [Str ''x'', Str ''Beta'', Str ''PS4'', Str ''N/A'', Str ''Action'', Str ''Acme'',
      Str ''n/a'', Str ''2.0'', Str ''0.0'', Str ''0.5'', Str ''1.0''] \<and>
   parse_int (example_engine []) ''x'' = None \<and>
   parse_date (example_engine []) ''N/A'' = None \<and>
   parse_double (example_engine []) ''n/a'' = None \<and>
   schema_normalizer (example_engine []) (read_csv nulls_file) = Inr nulls_normalized \<and>
   cell_at vgsales_columns ''Rank'' (rows nulls_normalized ! 1) = Null \<and>
   cell_at vgsales_columns ''Year'' (rows nulls_normalized ! 1) = Null \<and>
   cell_at vgsales_columns ''NA_Sales'' (rows nulls_normalized ! 1) = Null \<and>
   length (rows nulls_normalized) = 2 \<and>
   map_option (\<lambda>out. length (body out))
     (output_of (run_pipeline (example_engine []) (fresh_world nulls_file))) = Some 2"
proof -
  have c: "cols (read_csv nulls_file) = vgsales_columns"
    by (simp add: read_csv_nulls)
  have v: "cell_at (cols (read_csv nulls_file)) ''Rank'' (rows (read_csv nulls_file) ! Suc 0) =
      Str ''x''"
    "cell_at (cols (read_csv nulls_file)) ''Year'' (rows (read_csv nulls_file) ! Suc 0) =
      Str ''N/A''"
    "cell_at (cols (read_csv nulls_file)) ''NA_Sales'' (rows (read_csv nulls_file) ! Suc 0) =
      Str ''n/a''"
    by (simp_all add: read_csv_nulls vgsales_columns_def cell_at_def schema cells)
  have p: "parse_int (example_engine []) ''x'' = None"
    "parse_date (example_engine []) ''N/A'' = None"
    "parse_double (example_engine []) ''n/a'' = None"
    by (simp_all add: example_engine_fields)
  have l: "Suc 0 < length (rows (read_csv nulls_file))"
    by (simp add: read_csv_nulls)
  let ?t = "read_csv nulls_file :: rat table"
  from cast_failure_gives_null[OF c, of "example_engine []"]
  obtain n where H: "schema_normalizer (example_engine []) ?t = Inr n \<and>
     cols n = vgsales_columns \<and>
     length (rows n) = length (rows ?t) \<and>
     (\<forall>i < length (rows ?t). \<forall>s.
        (cell_at (cols ?t) ''Rank'' (rows ?t ! i) = Str s \<and>
         parse_int (example_engine []) s = None \<longrightarrow>
           cell_at (cols n) ''Rank'' (rows n ! i) = Null) \<and>
        (cell_at (cols ?t) ''Year'' (rows ?t ! i) = Str s \<and>
         parse_date (example_engine []) s = None \<longrightarrow>
           cell_at (cols n) ''Year'' (rows n ! i) = Null) \<and>
        (\<forall>c \<in> set [''NA_Sales'', ''EU_Sales'', ''JP_Sales'', ''Other_Sales'', ''Global_Sales''].
           cell_at (cols ?t) c (rows ?t ! i) = Str s \<and>
           parse_double (example_engine []) s = None \<longrightarrow>
           cell_at (cols n) c (rows n ! i) = Null)) \<and>
     (\<forall>w w'. ingestion w = Inr (w', ?t) \<longrightarrow>
        (\<exists>w2 out. run_pipeline (example_engine []) w = Inr w2 \<and>
                  files w2 transformed_path = Some out \<and>
                  length (body out) = length (rows ?t)))"
    ..
  note n = H[THEN conjunct1]
  note cn = H[THEN conjunct2, THEN conjunct1]
  note len = H[THEN conjunct2, THEN conjunct2, THEN conjunct1]
  note cells_of = H[THEN conjunct2, THEN conjunct2, THEN conjunct2, THEN conjunct1, rule_format,
      OF l]
  note run = H[THEN conjunct2, THEN conjunct2, THEN conjunct2, THEN conjunct2, rule_format]
  have rank: "cell_at (cols n) ''Rank'' (rows n ! Suc 0) = Null"
    using cells_of[of "''x''"] by (simp add: v p)
  have year: "cell_at (cols n) ''Year'' (rows n ! Suc 0) = Null"
    using cells_of[of "''N/A''"] by (simp add: v p)
  have sales: "cell_at (cols n) ''NA_Sales'' (rows n ! Suc 0) = Null"
    using cells_of[of "''n/a''"] by (simp add: v p)
  have nn: "n = nulls_normalized"
    using n normalized_nulls by simp
  from run[OF ingestion_fresh_world] have r: "map_option (\<lambda>out. length (body out))
     (output_of (run_pipeline (example_engine []) (fresh_world nulls_file))) = Some 2"
    by (auto simp: output_of_def read_csv_nulls)
  show ?thesis
    using c p rank year sales len n r cn
    by (simp add: nn read_csv_nulls)
qed

subsection \<open>C1: the rows with nulls are not dropped\<close>

text \<open>
  C1. Line 93 computes the table without the rows that hold a null and discards it. On
  the file of Alpha and Beta, where the rank, the year and the North American sales of
  Beta do not parse, the table without nulls has the row of Alpha only, while the table
  that the later stages read has both rows, and the row of Beta reaches the exported
  table with its nulls.
\<close>

theorem dropna_result_is_discarded:
  "schema_normalizer (example_engine []) (read_csv nulls_file) =
     Inr \<lparr>cols = vgsales_columns,
          rows = [[Num 1, Str ''Alpha'', Str ''Wii'', Date 13149, Str ''Sports'', Str ''Acme'',
                   Dbl 1, Dbl 2, Dbl 0, Dbl 0.5, Dbl 99],
                  [Null, Str ''Beta'', Str ''PS4'', Null, Str ''Action'', Str ''Acme'',
                   Null, Dbl 2, Dbl 0, Dbl 0.5, Dbl 1]]\<rparr> \<and>
   rows (dropna nulls_normalized) =
     [[Num 1, Str ''Alpha'', Str ''Wii'', Date 13149, Str ''Sports'', Str ''Acme'',
       Dbl 1, Dbl 2, Dbl 0, Dbl 0.5, Dbl 99]] \<and>
   rows (drop_nulls_step nulls_normalized) =
     [[Num 1, Str ''Alpha'', Str ''Wii'', Date 13149, Str ''Sports'', Str ''Acme'',
       Dbl 1, Dbl 2, Dbl 0, Dbl 0.5, Dbl 99],
      [Null, Str ''Beta'', Str ''PS4'', Null, Str ''Action'', Str ''Acme'',
       Null, Dbl 2, Dbl 0, Dbl 0.5, Dbl 1]] \<and>
   transform (example_engine []) (read_csv nulls_file) =
     Inr \<lparr>cols = final_columns,
          rows = [[Num 1, Str ''Alpha'', Str ''Wii'', Date 13149, Str ''Sports'', Str ''Acme'',
                   Dbl 1, Dbl 2, Dbl 0, Dbl 0.5, Dbl 3.5, Dbl 3.5, Dbl 6, Dbl 3.5, Dbl 3.5],
                  [Num 2, Str ''Beta'', Str ''PS4'', Null, Str ''Action'', Str ''Acme'',
                   Null, Dbl 2, Dbl 0, Dbl 0.5, Null, Null, Dbl 6, Null, Null]]\<rparr>"
proof -
  have a: "schema_normalizer (example_engine []) (read_csv nulls_file) =
     Inr \<lparr>cols = vgsales_columns,
          rows = [[Num 1, Str ''Alpha'', Str ''Wii'', Date 13149, Str ''Sports'', Str ''Acme'',
                   Dbl 1, Dbl 2, Dbl 0, Dbl 0.5, Dbl 99],
                  [Null, Str ''Beta'', Str ''PS4'', Null, Str ''Action'', Str ''Acme'',
                   Null, Dbl 2, Dbl 0, Dbl 0.5, Dbl 1]]\<rparr>"
    by (simp add: normalized_nulls nulls_normalized_def)
  have b: "rows (dropna nulls_normalized) =
     [[Num 1, Str ''Alpha'', Str ''Wii'', Date 13149, Str ''Sports'', Str ''Acme'',
       Dbl 1, Dbl 2, Dbl 0, Dbl 0.5, Dbl 99]]"
    by (simp add: nulls_normalized_def dropna_def complete_def vgsales_columns_def cells)
  have c: "rows (drop_nulls_step nulls_normalized) =
     [[Num 1, Str ''Alpha'', Str ''Wii'', Date 13149, Str ''Sports'', Str ''Acme'',
       Dbl 1, Dbl 2, Dbl 0, Dbl 0.5, Dbl 99],
      [Null, Str ''Beta'', Str ''PS4'', Null, Str ''Action'', Str ''Acme'',
       Null, Dbl 2, Dbl 0, Dbl 0.5, Dbl 1]]"
    by (simp add: nulls_normalized_def drop_nulls_step_def)
  have d: "transform (example_engine []) (read_csv nulls_file) =
     Inr \<lparr>cols = final_columns,
          rows = [[Num 1, Str ''Alpha'', Str ''Wii'', Date 13149, Str ''Sports'', Str ''Acme'',
                   Dbl 1, Dbl 2, Dbl 0, Dbl 0.5, Dbl 3.5, Dbl 3.5, Dbl 6, Dbl 3.5, Dbl 3.5],
                  [Num 2, Str ''Beta'', Str ''PS4'', Null, Str ''Action'', Str ''Acme'',
                   Null, Dbl 2, Dbl 0, Dbl 0.5, Null, Null, Dbl 6, Null, Null]]\<rparr>"
    by (simp add: transformed_nulls nulls_final_def)
  show ?thesis
    by (intro conjI a b c d)
qed

subsection \<open>C7: each join adds one column\<close>

text \<open>
  C7. On a table with the columns of the corrected table, each of the four left joins,
  by name, by publisher, by platform and by genre, applied in this order, gives a table
  that extends the table it is applied to by one column, its total: the name of the
  total is new, the columns are those of the table before and the total, one more in
  all, the number of rows is the same, and in every row every column of the table before
  holds the cell it held.
\<close>

theorem joins_add_one_column:
  assumes "cols g = corrected_columns"
  shows "\<exists>t1 t2 t3 t4.
     gamestb_with_totals g = Inr t1 \<and>
     df_with_totals_and_publisher_sales g = Inr t2 \<and>
     df_with_totals_publisher_platform g = Inr t3 \<and>
     df_with_totals_publisher_platform_genre g = Inr t4 \<and>
     extends_by ''Game_Total_Sales'' g t1 \<and>
     extends_by ''Publisher_Total_Sales'' t1 t2 \<and>
     extends_by ''Platform_Total_Sales'' t2 t3 \<and>
     extends_by ''Genre_Total_Sales'' t3 t4"
  by (rule joins_extend[OF assms])

theorem joins_add_one_column_witness:
  "corrected (example_engine []) (read_csv nulls_file) = Inr nulls_corrected \<and>
   cols nulls_corrected = corrected_columns \<and>
   length (rows nulls_corrected) = 2 \<and>
   (\<exists>t1 t2 t3 t4.
      gamestb_with_totals nulls_corrected = Inr t1 \<and>
      df_with_totals_and_publisher_sales nulls_corrected = Inr t2 \<and>
      df_with_totals_publisher_platform nulls_corrected = Inr t3 \<and>
      df_with_totals_publisher_platform_genre nulls_corrected = Inr t4 \<and>
      extends_by ''Game_Total_Sales'' nulls_corrected t1 \<and>
      extends_by ''Publisher_Total_Sales'' t1 t2 \<and>
      extends_by ''Platform_Total_Sales'' t2 t3 \<and>
      extends_by ''Genre_Total_Sales'' t3 t4 \<and>
      length (cols t4) = 15 \<and> length (rows t4) = 2)"
proof -
  have c: "cols nulls_corrected = corrected_columns"
    by (simp add: nulls_corrected_def)
  have n: "length (rows nulls_corrected) = 2"
    by (simp add: nulls_corrected_def)
  have k: "length (cols nulls_corrected) = 11"
    by (simp add: nulls_corrected_def corrected_columns_def)
  from joins_add_one_column[OF c] obtain t1 t2 t3 t4 :: "rat table" where
    j: "gamestb_with_totals nulls_corrected = Inr t1"
       "df_with_totals_and_publisher_sales nulls_corrected = Inr t2"
       "df_with_totals_publisher_platform nulls_corrected = Inr t3"
       "df_with_totals_publisher_platform_genre nulls_corrected = Inr t4"
    and x: "extends_by ''Game_Total_Sales'' nulls_corrected t1"
       "extends_by ''Publisher_Total_Sales'' t1 t2"
       "extends_by ''Platform_Total_Sales'' t2 t3"
       "extends_by ''Genre_Total_Sales'' t3 t4"
    by blast
  from x k n have "length (cols t4) = 15 \<and> length (rows t4) = 2"
    by (simp add: extends_by_def)
  with j x corrected_nulls c n show ?thesis
    by blast
qed

subsection \<open>C2: the ranks are not always 1 to N\<close>

text \<open>
  C2. The rank is the identifier that the engine gives to the row of the sorted table,
  plus one. On the file of Alpha and Beta, where cells of Beta do not parse, the ranks are
  1 and 2 while one row only has no null. On the file of Alpha and Gamma, where no cell
  is null, an engine that holds the first row of the sorted table in one partition and
  the second row in the next gives the ranks 1 and 8589934593.
\<close>

theorem ranks_not_one_to_n:
  "corrected (example_engine []) (read_csv nulls_file) = Inr nulls_corrected \<and>
   map (cell_at (cols nulls_corrected) ''Rank'') (rows nulls_corrected) = [Num 1, Num 2] \<and>
   schema_normalizer (example_engine []) (read_csv nulls_file) = Inr nulls_normalized \<and>
   length (rows (dropna nulls_normalized)) = 1 \<and>
   schema_normalizer (example_engine [1]) (read_csv pair_file) = Inr pair_normalized \<and>
   length (rows (dropna pair_normalized)) = 2 \<and>
   corrected (example_engine [1]) (read_csv pair_file) =
     Inr \<lparr>cols = corrected_columns,
          rows = [[Num 1, Str ''Gamma'', Str ''PS4'', Str ''2013'', Str ''Action'', Str ''Acme'',
                   Dbl 2, Dbl 2, Dbl 0, Dbl 0.5, Dbl 4.5],
                  [Num 8589934593, Str ''Alpha'', Str ''Wii'', Str ''2006'', Str ''Sports'',
                   Str ''Acme'', Dbl 1, Dbl 2, Dbl 0, Dbl 0.5, Dbl 3.5]]\<rparr>"
proof -
  have a: "map (cell_at (cols nulls_corrected) ''Rank'') (rows nulls_corrected) = [Num 1, Num 2]"
    by (simp add: nulls_corrected_def corrected_cells nth_cell_def)
  have b: "length (rows (dropna nulls_normalized)) = 1"
    by (simp add: nulls_normalized_def dropna_def complete_def vgsales_columns_def cells)
  have c: "length (rows (dropna pair_normalized)) = 2"
    by (simp add: pair_normalized_def dropna_def complete_def vgsales_columns_def cells)
  have d: "corrected (example_engine [1]) (read_csv pair_file) =
     Inr \<lparr>cols = corrected_columns,
          rows = [[Num 1, Str ''Gamma'', Str ''PS4'', Str ''2013'', Str ''Action'', Str ''Acme'',
                   Dbl 2, Dbl 2, Dbl 0, Dbl 0.5, Dbl 4.5],
                  [Num 8589934593, Str ''Alpha'', Str ''Wii'', Str ''2006'', Str ''Sports'',
                   Str ''Acme'', Dbl 1, Dbl 2, Dbl 0, Dbl 0.5, Dbl 3.5]]\<rparr>"
    unfolding corrected_pair by (simp add: row_id_def)
  show ?thesis
    by (intro conjI corrected_nulls a normalized_nulls b normalized_pair c d)
qed

subsection \<open>C4: the total of a publisher and the sum of its rows\<close>

text \<open>
  C4. On the file of two games of Acme, where the North American sales of the second do
  not parse, both rows of the final table have the publisher total 3, the sum of the
  sums of the four regional columns with the nulls left out, while the corrected global
  sales of the rows are 1 and null, and their sum over the rows of Acme is 1.
\<close>

theorem publisher_total_differs_from_sum:
  "transform (example_engine []) (read_csv acme_file) = Inr acme_final \<and>
   map (cell_at (cols acme_final) ''Publisher'') (rows acme_final) =
     [Str ''Acme'', Str ''Acme''] \<and>
   map (cell_at (cols acme_final) ''Publisher_Total_Sales'') (rows acme_final) =
     [Dbl 3, Dbl 3] \<and>
   map (cell_at (cols acme_final) ''Global_Sales'') (rows acme_final) = [Dbl 1, Null] \<and>
   sum_agg (map (cell_at (cols acme_final) ''Global_Sales'')
     (filter (\<lambda>r. cell_at (cols acme_final) ''Publisher'' r = Str ''Acme'')
        (rows acme_final))) = Dbl 1"
proof -
  have c: "cols acme_final = final_columns"
    by (simp add: acme_final_def)
  have r: "rows acme_final =
      [[Num 1, Str ''Alpha'', Str ''Wii'', Date 13149, Str ''Sports'', Str ''Acme'',
        Dbl 1, Dbl 0, Dbl 0, Dbl 0, Dbl 1, Dbl 1, Dbl 3, Dbl 1, Dbl 1],
       [Num 2, Str ''Beta'', Str ''PS4'', Date 15706, Str ''Action'', Str ''Acme'',
        Null, Dbl 2, Dbl 0, Dbl 0, Null, Null, Dbl 3, Null, Null]]"
    by (simp add: acme_final_def)
  show ?thesis
    unfolding c r by (simp add: transformed_acme final_cells nth_cell_def sum_agg_def)
qed

subsection \<open>C6: the colors of the chart since 2010\<close>

text \<open>
  C6. When the two queries give their results, the frame of the chart since 2010 is the
  result of the query since 2010 with a column Color, filled from the second table of
  colors looked up at the platforms of the result of the first, all-time query. When
  the query since 2010 has rows, the cell Color of its row \<open>i\<close> is the second table looked
  up at the platform of row \<open>i\<close> of the first result; it is null when that platform is not
  a key of the second table or the first result has no row \<open>i\<close>. When the query since 2010
  has no row, the frame takes one row for each row of the first result, and its column
  Color is the whole looked up series. The column Color of the first frame is the first
  table of colors looked up at the same platforms.
\<close>

theorem since_2010_colors:
  assumes "top_ranked_games fg = Inr q1" and "top_ranked_games_2010 e fg = Inr q2"
  shows "top_ranked_games_2010_pd e fg =
     Inr (setitem ''Color'' (series_map platform_colors_2 (platforms_of q1)) q2) \<and>
   colors_of (top_ranked_games_2010_pd e fg) =
     Inr (if rows q2 = [] then series_map platform_colors_2 (platforms_of q1)
          else map (nth_cell (series_map platform_colors_2 (platforms_of q1)))
                 [0..<length (rows q2)]) \<and>
   colors_of (top_ranked_games_pd fg) =
     Inr (series_map platform_colors_1 (platforms_of q1))"
  by (intro conjI top_ranked_games_2010_pd_frame[OF assms] colors_2010[OF assms]
      colors_first[OF assms(1)])

text \<open>
  On the exported table of Alpha, on the Wii in 2006, and Gamma, on the PS4 in 2013, the
  frame since 2010 has the row of Gamma with a null color. On the exported table of Alpha
  and Beta, where the year of Beta is null, the query since 2010 has no row and the frame
  has the two colors null and red of the platforms Wii and PS4 of the first result.
\<close>

theorem since_2010_colors_witness:
  "top_ranked_games chart_final =
     Inr \<lparr>cols = [''Rank'', ''Name'', ''Platform'', ''Global_Sales'', ''Year''],
          rows = [[Num 1, Str ''Alpha'', Str ''Wii'', Dbl (9 / 2), Date 13149],
                  [Num 2, Str ''Gamma'', Str ''PS4'', Dbl (7 / 2), Date 15706]]\<rparr> \<and>
   top_ranked_games_2010 (example_engine []) chart_final =
     Inr \<lparr>cols = [''Rank'', ''Name'', ''Platform'', ''Global_Sales'', ''Year''],
          rows = [[Num 2, Str ''Gamma'', Str ''PS4'', Dbl (7 / 2), Date 15706]]\<rparr> \<and>
   top_ranked_games_2010_pd (example_engine []) chart_final =
     Inr \<lparr>cols = [''Rank'', ''Name'', ''Platform'', ''Global_Sales'', ''Year'', ''Color''],
          rows = [[Num 2, Str ''Gamma'', Str ''PS4'', Dbl (7 / 2), Date 15706, Null]]\<rparr> \<and>
   top_ranked_games_2010 (example_engine []) nulls_final =
     Inr \<lparr>cols = [''Rank'', ''Name'', ''Platform'', ''Global_Sales'', ''Year''], rows = []\<rparr> \<and>
   top_ranked_games_2010_pd (example_engine []) nulls_final =
     Inr \<lparr>cols = [''Rank'', ''Name'', ''Platform'', ''Global_Sales'', ''Year'', ''Color''],
          rows = [[Null, Null, Null, Null, Null, Null],
                  [Null, Null, Null, Null, Null, Str ''red'']]\<rparr> \<and>
   colors_of (top_ranked_games_2010_pd (example_engine []) nulls_final) =
     Inr [Null, Str ''red'']"
proof -
  have p1: "platforms_of \<lparr>cols = [''Rank'', ''Name'', ''Platform'', ''Global_Sales'', ''Year''],
      rows = [[Num 1, Str ''Alpha'', Str ''Wii'', Dbl (9 / 2), Date 13149],
              [Num 2, Str ''Gamma'', Str ''PS4'', Dbl (7 / 2), Date 15706 :: rat cell]]\<rparr> =
      [Str ''Wii'', Str ''PS4'']"
    by (simp add: platforms_of_def cell_at_def schema nth_cell_def)
  have p2: "platforms_of \<lparr>cols = [''Rank'', ''Name'', ''Platform'', ''Global_Sales'', ''Year''],
      rows = [[Num 1, Str ''Alpha'', Str ''Wii'', Dbl (7 / 2), Date 13149],
              [Num 2, Str ''Beta'', Str ''PS4'', Null, Null :: rat cell]]\<rparr> =
      [Str ''Wii'', Str ''PS4'']"
    by (simp add: platforms_of_def cell_at_def schema nth_cell_def)
  note chart = since_2010_colors[OF top_ranked_chart top_ranked_2010_chart]
  note nulls = since_2010_colors[OF top_ranked_nulls top_ranked_2010_nulls]
  have a: "top_ranked_games_2010_pd (example_engine []) chart_final =
     Inr \<lparr>cols = [''Rank'', ''Name'', ''Platform'', ''Global_Sales'', ''Year'', ''Color''],
          rows = [[Num 2, Str ''Gamma'', Str ''PS4'', Dbl (7 / 2), Date 15706, Null]]\<rparr>"
    unfolding chart[THEN conjunct1] p1
    by (simp add: setitem_color indexed_rows_def series_map_def platform_colors_2_def
        nth_cell_def)
  have b: "top_ranked_games_2010_pd (example_engine []) nulls_final =
     Inr \<lparr>cols = [''Rank'', ''Name'', ''Platform'', ''Global_Sales'', ''Year'', ''Color''],
          rows = [[Null, Null, Null, Null, Null, Null],
                  [Null, Null, Null, Null, Null, Str ''red'']]\<rparr>"
    unfolding nulls[THEN conjunct1] p2
    by (simp add: setitem_color indexed_rows_def series_map_def platform_colors_2_def
        nth_cell_def)
  have c: "colors_of (top_ranked_games_2010_pd (example_engine []) nulls_final) =
     Inr [Null, Str ''red'']"
    unfolding nulls[THEN conjunct2, THEN conjunct1] p2
    by (simp add: series_map_def platform_colors_2_def)
  show ?thesis
    by (intro conjI top_ranked_chart top_ranked_2010_chart a top_ranked_2010_nulls b c)
qed

text \<open>
  On the file of Alpha, on the Wii in 2006, and Gamma, on the PS4 in 2013, the first
  frame has the platforms Wii and PS4 and the colors blue and null, and the frame since
  2010 has the one row of Gamma. Its color is null, the second table looked up at Wii:
  it is not blue, the color of row 0 of the first frame, and it is not red, the second
  table looked up at the platform of Gamma.
\<close>

theorem since_2010_colors_counterexample:
  "transform (example_engine []) (read_csv chart_file) = Inr chart_final \<and>
   top_ranked_games chart_final =
     Inr \<lparr>cols = [''Rank'', ''Name'', ''Platform'', ''Global_Sales'', ''Year''],
          rows = [[Num 1, Str ''Alpha'', Str ''Wii'', Dbl (9 / 2), Date 13149],
                  [Num 2, Str ''Gamma'', Str ''PS4'', Dbl (7 / 2), Date 15706]]\<rparr> \<and>
   top_ranked_games_2010 (example_engine []) chart_final =
     Inr \<lparr>cols = [''Rank'', ''Name'', ''Platform'', ''Global_Sales'', ''Year''],
          rows = [[Num 2, Str ''Gamma'', Str ''PS4'', Dbl (7 / 2), Date 15706]]\<rparr> \<and>
   colors_of (top_ranked_games_pd chart_final) = Inr [Str ''blue'', Null] \<and>
   colors_of (top_ranked_games_2010_pd (example_engine []) chart_final) = Inr [Null] \<and>
   series_map platform_colors_2
     (platforms_of
        \<lparr>cols = [''Rank'', ''Name'', ''Platform'', ''Global_Sales'', ''Year''],
         rows = [[Num 2, Str ''Gamma'', Str ''PS4'', Dbl (7 / 2), Date 15706 :: rat cell]]\<rparr>) =
     [Str ''red'']"
proof -
  have p1: "platforms_of \<lparr>cols = [''Rank'', ''Name'', ''Platform'', ''Global_Sales'', ''Year''],
      rows = [[Num 1, Str ''Alpha'', Str ''Wii'', Dbl (9 / 2), Date 13149],
              [Num 2, Str ''Gamma'', Str ''PS4'', Dbl (7 / 2), Date 15706 :: rat cell]]\<rparr> =
      [Str ''Wii'', Str ''PS4'']"
    by (simp add: platforms_of_def cell_at_def schema nth_cell_def)
  have c1: "colors_of (top_ranked_games_pd chart_final) = Inr [Str ''blue'', Null]"
    unfolding colors_first[OF top_ranked_chart] p1
    by (simp add: series_map_def platform_colors_1_def)
  have c2: "colors_of (top_ranked_games_2010_pd (example_engine []) chart_final) = Inr [Null]"
    unfolding colors_2010[OF top_ranked_chart top_ranked_2010_chart] p1
    by (simp add: series_map_def platform_colors_2_def nth_cell_def)
  have c3: "series_map platform_colors_2
     (platforms_of
        \<lparr>cols = [''Rank'', ''Name'', ''Platform'', ''Global_Sales'', ''Year''],
         rows = [[Num 2, Str ''Gamma'', Str ''PS4'', Dbl (7 / 2), Date 15706 :: rat cell]]\<rparr>) =
     [Str ''red'']"
    by (simp add: platforms_of_def cell_at_def schema nth_cell_def series_map_def
        platform_colors_2_def)
  show ?thesis
    by (intro conjI transformed_chart top_ranked_chart top_ranked_2010_chart c1 c2 c3)
qed

end
